theory Spec2Isabelle
  imports Main "HOL-Library.Sublist"
begin

section \<open>Strings, paths and the Python library calls the program relies on\<close>

text \<open>
  Strings are ASCII character lists.  The program runs on Windows, so paths are built
  with the backslash separator, written \<open>CHR 0x5C\<close> here.
\<close>

type_synonym path = string

definition bsl :: string where
  "bsl = [CHR 0x5C]"

definition is_sep :: "char \<Rightarrow> bool" where
  "is_sep c = (c = CHR 0x5C \<or> c = CHR ''/'')"

text \<open>
  \<^verbatim>\<open>os.path.join(a, b)\<close> for a second component that is relative and has no drive, as
  every second component in the program is: the separator is inserted unless the first
  component is empty or already ends in a separator or a drive colon.
\<close>

definition path_join :: "path \<Rightarrow> path \<Rightarrow> path" where
  "path_join a b =
     (if a = [] \<or> is_sep (last a) \<or> last a = CHR '':'' then a @ b else a @ bsl @ b)"

text \<open>\<^verbatim>\<open>p\<close> is the directory \<^verbatim>\<open>d\<close> itself or lies below it.\<close>

definition within :: "path \<Rightarrow> path \<Rightarrow> bool" where
  "within d p = (p = d \<or> prefix (d @ bsl) p \<or> prefix (d @ ''/'') p)"

text \<open>\<^verbatim>\<open>str.strip()\<close>: the ASCII characters for which \<^verbatim>\<open>str.isspace\<close> holds.\<close>

definition is_space :: "char \<Rightarrow> bool" where
  "is_space c = (c \<in> set [CHR 0x09, CHR 0x0A, CHR 0x0B, CHR 0x0C, CHR 0x0D,
                           CHR 0x1C, CHR 0x1D, CHR 0x1E, CHR 0x1F, CHR '' ''])"

definition strip :: "string \<Rightarrow> string" where
  "strip s = rev (dropWhile is_space (rev (dropWhile is_space s)))"

text \<open>\<^verbatim>\<open>pat in s\<close> on strings.\<close>

fun contains :: "string \<Rightarrow> string \<Rightarrow> bool" where
  "contains pat [] = (pat = [])"
| "contains pat (c # cs) = (prefix pat (c # cs) \<or> contains pat cs)"

text \<open>\<^verbatim>\<open>s.split(".")\<close>: always at least one part.\<close>

fun split_dot :: "string \<Rightarrow> string list" where
  "split_dot [] = [[]]"
| "split_dot (c # cs) =
     (if c = CHR ''.'' then [] # split_dot cs
      else (case split_dot cs of
              [] \<Rightarrow> [[c]]
            | p # ps \<Rightarrow> (c # p) # ps))"

subsection \<open>Exceptions\<close>

text \<open>
  An exception is its class and its \<^verbatim>\<open>str(e)\<close>.  Only subclasses of \<^verbatim>\<open>Exception\<close> are
  modelled.  \<open>FileNotFoundError\<close>, \<open>PermissionError\<close> and \<open>FileExistsError\<close> are
  subclasses of \<open>OSError\<close>.
\<close>

datatype exc_class =
    FileNotFoundError | PermissionError | FileExistsError | OSError
  | TimeoutExpired | ValueError | UnicodeEncodeError | TypeError | AttributeError
  | RuntimeError | NameError | OtherException

datatype exc = Exc exc_class string

fun exc_str :: "exc \<Rightarrow> string" where
  "exc_str (Exc k m) = m"

fun is_FileNotFoundError :: "exc \<Rightarrow> bool" where
  "is_FileNotFoundError (Exc k m) = (k = FileNotFoundError)"

fun is_OSError :: "exc \<Rightarrow> bool" where
  "is_OSError (Exc k m) =
     (k = OSError \<or> k = FileNotFoundError \<or> k = PermissionError \<or> k = FileExistsError)"

subsection \<open>\<^verbatim>\<open>int(s)\<close> on a string\<close>

definition is_digit :: "char \<Rightarrow> bool" where
  "is_digit c = (48 \<le> (of_char c :: nat) \<and> (of_char c :: nat) \<le> 57)"

definition digit_val :: "char \<Rightarrow> int" where
  "digit_val c = int (of_char c) - 48"

text \<open>Digits, with single underscores allowed between two digits.\<close>

fun parse_digits :: "int \<Rightarrow> string \<Rightarrow> int option" where
  "parse_digits acc [] = Some acc"
| "parse_digits acc [c] =
     (if is_digit c then Some (10 * acc + digit_val c) else None)"
| "parse_digits acc (c # d # ds) =
     (if is_digit c then parse_digits (10 * acc + digit_val c) (d # ds)
      else if c = CHR ''_'' \<and> is_digit d then parse_digits (10 * acc + digit_val d) ds
      else None)"

definition parse_unsigned :: "string \<Rightarrow> int option" where
  "parse_unsigned s =
     (case s of
        [] \<Rightarrow> None
      | c # cs \<Rightarrow> if is_digit c then parse_digits (digit_val c) cs else None)"

definition py_int :: "string \<Rightarrow> exc + int" where
  "py_int s =
     (let t = strip s;
          r = (case t of
                 [] \<Rightarrow> None
               | c # cs \<Rightarrow>
                   if c = CHR ''-'' then map_option uminus (parse_unsigned cs)
                   else if c = CHR ''+'' then parse_unsigned cs
                   else parse_unsigned t)
      in case r of
           None \<Rightarrow> Inl (Exc ValueError ''invalid literal for int() with base 10'')
         | Some n \<Rightarrow> Inr n)"

section \<open>The world: file system, processes, network\<close>

text \<open>
  The marker file holds a JSON object; every other file is opaque.  A value of a JSON
  object is a string or a boolean, as in the records the program writes.
\<close>

datatype jval = JStr string | JBool bool

datatype content = JsonObject "(string \<times> jval) list" | Opaque string

text \<open>What \<^verbatim>\<open>subprocess.run(..., capture_output=True, text=True)\<close> returns.\<close>

record completed =
  returncode :: int
  stdout :: string
  stderr :: string

text \<open>
  Everything the program cannot decide by itself is a field of the world: the
  environment, what each external command answers (or the exception that
  \<^verbatim>\<open>subprocess.run\<close> raises: a timeout, a missing executable), what a download
  delivers, whether an archive unpacks, and which entries the operating system refuses
  to delete.  \<open>leaves\<close> and \<open>rendered\<close> are the file a command leaves at the path the
  program goes on to test: the interpreter of the silent installer and the video of
  the renderer.  \<open>stdout_encodes\<close> tells whether the encoding of standard output has
  all the characters of a line: a console or a UTF-8 stream has them, a standard output
  redirected under a Windows ANSI or OEM code page has not, and \<^verbatim>\<open>print\<close> then raises
  \<open>UnicodeEncodeError\<close> before it writes anything.
  \<open>callback_after_except\<close> tells whether a callback posted to the window's event
  loop from inside an \<^verbatim>\<open>except ... as e\<close> block runs only after the
  block has ended, when Python has already unbound \<^verbatim>\<open>e\<close>.
\<close>

datatype fetched =
    Fetched content
  | FetchFailed string "content option"

text \<open>
  The lines the headless mode prints.  Every one of them has characters outside ASCII
  in the source: the Turkish dotless i in the usage and the file-not-found line, further
  Turkish letters in the not-set-up line, a check mark and a ballot cross in the two
  result lines; two of them also carry a path.
\<close>

datatype line =
    Usage
  | File_not_found path
  | Not_set_up
  | Video_created path
  | Video_failed

record world =
  home :: path
  localappdata :: "string option"
  tempdir :: path
  which :: "string \<Rightarrow> path option"
  run :: "string list \<Rightarrow> exc + completed"
  leaves :: "string list \<Rightarrow> content option"
  run_shell :: "string \<Rightarrow> exc + completed"
  rendered :: "string \<Rightarrow> content option"
  urlopen :: "string \<Rightarrow> fetched"
  unzip :: "content \<Rightarrow> exc option"
  undeletable :: "path list"
  stdout_encodes :: "line \<Rightarrow> bool"
  callback_after_except :: bool

subsection \<open>Paths and constants of the program\<close>

definition APP_DIR :: "world \<Rightarrow> path" where
  "APP_DIR w = path_join (home w) ''.quickanimations''"

definition VENV_DIR :: "world \<Rightarrow> path" where
  "VENV_DIR w = path_join (APP_DIR w) ''venv''"

definition PYTHON_EXE_default :: "world \<Rightarrow> path" where
  "PYTHON_EXE_default w = path_join (path_join (VENV_DIR w) ''Scripts'') ''python.exe''"

definition SETUP_MARKER :: "world \<Rightarrow> path" where
  "SETUP_MARKER w = path_join (APP_DIR w) ''setup_complete.json''"

definition PYTHON_VERSION :: string where
  "PYTHON_VERSION = ''3.11.9''"

definition PYTHON_EMBED_URL :: string where
  "PYTHON_EMBED_URL = ''https://www.python.org/ftp/python/'' @ PYTHON_VERSION
                      @ ''/python-'' @ PYTHON_VERSION @ ''-embed-amd64.zip''"

definition GET_PIP_URL :: string where
  "GET_PIP_URL = ''https://bootstrap.pypa.io/get-pip.py''"

section \<open>The state of the process\<close>

datatype step = Python | Venv | Pip | Manim | Ffmpeg

datatype status = Pending | Active | Done | Error

text \<open>
  The texts of the status line.  The source's texts are Turkish and are named here by
  what they say; a text built from a variable carries that variable.
\<close>

datatype failure =
    Python_download_failed
  | Venv_failed string
  | Pip_failed string
  | Manim_failed string
  | Unexpected string

datatype message =
    Msg_click_to_start
  | Msg_searching_python
  | Msg_system_python_found
  | Msg_downloading_python
  | Msg_python_downloaded
  | Msg_downloading_installer
  | Msg_installing_python
  | Msg_creating_venv
  | Msg_venv_created
  | Msg_checking_pip
  | Msg_downloading_pip
  | Msg_pip_ready
  | Msg_installing_manim
  | Msg_manim_installed
  | Msg_checking_ffmpeg
  | Msg_ffmpeg_ready
  | Msg_install_complete
  | Msg_failed failure
  | Msg_skip_checking
  | Msg_skip_verified path
  | Msg_skip_failed string

datatype screen = No_window | Setup_wizard | Main_app

text \<open>The operations on the outside world, in the order the program performs them.\<close>

datatype op =
    Run "string list"
  | Run_shell string
  | Makedirs path
  | Rmtree path
  | Remove path
  | Write path
  | Download string path
  | Extract path path

text \<open>
  \<open>files\<close> and \<open>dirs\<close> are the file system as the program sees and changes it: the
  entries that exist when an operation starts and those the program itself creates or
  deletes.  What an external tool writes is not tracked, except the video the renderer
  leaves, which the program tests for.  \<open>PYTHON_EXE\<close> is the module-level global that
  \<^verbatim>\<open>is_setup_complete\<close> and \<^verbatim>\<open>_skip_setup\<close> rebind.  The remaining fields are the
  setup screen: the texts of the description labels and the progress bar are pure
  presentation and are left out.  Callbacks posted with \<^verbatim>\<open>root.after(0, ...)\<close> are
  applied in the order they are posted.
\<close>

record state =
  files :: "path \<rightharpoonup> content"
  dirs :: "path \<Rightarrow> bool"
  PYTHON_EXE :: path
  installing :: bool
  checks :: "step \<Rightarrow> status"
  status_var :: message
  install_btn_disabled :: bool
  skip_btn_disabled :: bool
  screen :: screen
  printed :: "line list"
  oplog :: "op list"

definition isfile :: "state \<Rightarrow> path \<Rightarrow> bool" where
  "isfile s p = (files s p \<noteq> None)"

definition isdir :: "state \<Rightarrow> path \<Rightarrow> bool" where
  "isdir s p = dirs s p"

subsection \<open>Control flow: normal completion, early return, exception\<close>

datatype 'a flow = Next 'a | Return | Raise exc

type_synonym 'a prog = "state \<Rightarrow> 'a flow \<times> state"

definition seq :: "'a prog \<Rightarrow> ('a \<Rightarrow> 'b prog) \<Rightarrow> 'b prog" where
  "seq m f s =
     (case m s of
        (Next x, s') \<Rightarrow> f x s'
      | (Return, s') \<Rightarrow> (Return, s')
      | (Raise e, s') \<Rightarrow> (Raise e, s'))"

definition pure :: "'a \<Rightarrow> 'a prog" where
  "pure x s = (Next x, s)"

definition return_now :: "'a prog" where
  "return_now s = (Return, s)"

definition effect :: "(state \<Rightarrow> state) \<Rightarrow> unit prog" where
  "effect g s = (Next (), g s)"

definition logged :: "op \<Rightarrow> state \<Rightarrow> state" where
  "logged x s = s\<lparr>oplog := oplog s @ [x]\<rparr>"

subsection \<open>Operating-system calls\<close>

definition subprocess_run :: "world \<Rightarrow> string list \<Rightarrow> completed prog" where
  "subprocess_run w argv s =
     (case run w argv of
        Inl e \<Rightarrow> (Raise e, logged (Run argv) s)
      | Inr r \<Rightarrow> (Next r, logged (Run argv) s))"

section \<open>The interpreter locator\<close>

definition version_names :: "string list" where
  "version_names = [''311'', ''312'', ''310'', ''39'', ''313'']"

definition candidates :: "world \<Rightarrow> path option list" where
  "candidates w =
     [which w ''python'', which w ''python3'', which w ''py'']
     @ concat (map (\<lambda>ver.
         [Some (path_join (case localappdata w of None \<Rightarrow> [] | Some d \<Rightarrow> d)
                  (''Programs'' @ bsl @ ''Python'' @ bsl @ ''Python'' @ ver @ bsl @ ''python.exe'')),
          Some (''C:'' @ bsl @ ''Python'' @ ver @ bsl @ ''python.exe'')])
         version_names)"

text \<open>
  The body of the \<^verbatim>\<open>try\<close> for one candidate: \<open>Next True\<close> is \<^verbatim>\<open>return path\<close>,
  \<open>Next False\<close> falls out of the \<^verbatim>\<open>if\<close>s to the next candidate.  The exit status of the
  probe is not looked at.
\<close>

definition probe_version :: "world \<Rightarrow> path \<Rightarrow> bool prog" where
  "probe_version w p =
     seq (subprocess_run w [p, ''--version'']) (\<lambda>result.
       let ver_str = strip (stdout result) in
       if contains ''Python 3.'' ver_str then
         (let parts = split_dot ver_str in
          if length parts \<ge> 2 then
            (case py_int (parts ! 1) of
               Inl e \<Rightarrow> (\<lambda>s. (Raise e, s))
             | Inr minor \<Rightarrow> pure (minor \<ge> 8))
          else pure False)
       else pure False)"

text \<open>The loop over the candidates, with its \<^verbatim>\<open>except Exception: continue\<close>.\<close>

fun find_loop :: "world \<Rightarrow> path option list \<Rightarrow> path option prog" where
  "find_loop w [] s = (Next None, s)"
| "find_loop w (c # cs) s =
     (case c of
        None \<Rightarrow> find_loop w cs s
      | Some p \<Rightarrow>
          if p \<noteq> [] \<and> isfile s p then
            (case probe_version w p s of
               (Next True, s') \<Rightarrow> (Next (Some p), s')
             | (Next False, s') \<Rightarrow> find_loop w cs s'
             | (Return, s') \<Rightarrow> (Return, s')
             | (Raise e, s') \<Rightarrow> find_loop w cs s')
          else find_loop w cs s)"

definition find_system_python :: "world \<Rightarrow> path option prog" where
  "find_system_python w = find_loop w (candidates w)"

section \<open>File operations\<close>

text \<open>\<^verbatim>\<open>os.makedirs(d, exist_ok=True)\<close>; parent directories are not tracked.\<close>

definition makedirs :: "path \<Rightarrow> unit prog" where
  "makedirs d s =
     (if isfile s d then (Raise (Exc FileExistsError d), logged (Makedirs d) s)
      else (Next (), logged (Makedirs d) (s\<lparr>dirs := (dirs s)(d := True)\<rparr>)))"

text \<open>
  \<^verbatim>\<open>shutil.rmtree(d, ignore_errors=True)\<close> deletes what the operating system lets it
  delete and reports nothing.
\<close>

definition rmtree_ignore_errors :: "world \<Rightarrow> path \<Rightarrow> unit prog" where
  "rmtree_ignore_errors w d s =
     (Next (),
      logged (Rmtree d)
        (s\<lparr>files := (\<lambda>p. if within d p \<and> p \<notin> set (undeletable w) then None else files s p),
           dirs := (\<lambda>p. dirs s p \<and> (p \<in> set (undeletable w) \<or> \<not> within d p))\<rparr>))"

text \<open>
  \<^verbatim>\<open>shutil.rmtree(d)\<close> raises at an entry it cannot delete; how much it had deleted by
  then is not modelled.
\<close>

definition rmtree :: "world \<Rightarrow> path \<Rightarrow> unit prog" where
  "rmtree w d s =
     (if list_ex (\<lambda>p. within d p \<and> (isfile s p \<or> isdir s p)) (undeletable w)
      then (Raise (Exc PermissionError d), logged (Rmtree d) s)
      else rmtree_ignore_errors w d s)"

definition os_remove :: "world \<Rightarrow> path \<Rightarrow> unit prog" where
  "os_remove w p s =
     (if isfile s p then
        (if p \<in> set (undeletable w) then (Raise (Exc PermissionError p), logged (Remove p) s)
         else (Next (), logged (Remove p) (s\<lparr>files := (files s)(p := None)\<rparr>)))
      else if isdir s p then (Raise (Exc PermissionError p), logged (Remove p) s)
      else (Raise (Exc FileNotFoundError p), logged (Remove p) s))"

text \<open>\<^verbatim>\<open>with open(p, "w") as f: ...\<close> fails when \<^verbatim>\<open>p\<close> is a directory.\<close>

definition write_file :: "path \<Rightarrow> content \<Rightarrow> unit prog" where
  "write_file p c s =
     (if isdir s p then (Raise (Exc PermissionError p), logged (Write p) s)
      else (Next (), logged (Write p) (s\<lparr>files := (files s)(p \<mapsto> c)\<rparr>)))"

text \<open>A command whose product at \<^verbatim>\<open>target\<close> the program tests for afterwards.\<close>

definition subprocess_run_leaving :: "world \<Rightarrow> string list \<Rightarrow> path \<Rightarrow> completed prog" where
  "subprocess_run_leaving w argv target s =
     (let s1 = (case leaves w argv of
                  None \<Rightarrow> s
                | Some c \<Rightarrow> s\<lparr>files := (files s)(target \<mapsto> c)\<rparr>)
      in subprocess_run w argv s1)"

definition shell_run :: "world \<Rightarrow> string \<Rightarrow> path \<Rightarrow> completed prog" where
  "shell_run w cmd target s =
     (let s1 = (case rendered w cmd of
                  None \<Rightarrow> s
                | Some c \<Rightarrow> s\<lparr>files := (files s)(target \<mapsto> c)\<rparr>)
      in case run_shell w cmd of
           Inl e \<Rightarrow> (Raise e, logged (Run_shell cmd) s1)
         | Inr r \<Rightarrow> (Next r, logged (Run_shell cmd) s1))"

text \<open>\<^verbatim>\<open>try: ... except OSError: pass\<close> and \<^verbatim>\<open>try: ... except FileNotFoundError: pass\<close>.\<close>

definition except_OSError_pass :: "unit prog \<Rightarrow> unit prog" where
  "except_OSError_pass m s =
     (case m s of
        (Raise e, s') \<Rightarrow> if is_OSError e then (Next (), s') else (Raise e, s')
      | r \<Rightarrow> r)"

definition except_FileNotFoundError_pass :: "unit prog \<Rightarrow> unit prog" where
  "except_FileNotFoundError_pass m s =
     (case m s of
        (Raise e, s') \<Rightarrow> if is_FileNotFoundError e then (Next (), s') else (Raise e, s')
      | r \<Rightarrow> r)"

text \<open>
  \<^verbatim>\<open>os.path.dirname\<close> and \<^verbatim>\<open>Path(p).stem\<close> for paths with a drive letter or none (no UNC
  shares).
\<close>

definition splitdrive :: "path \<Rightarrow> path \<times> path" where
  "splitdrive p = (if length p \<ge> 2 \<and> p ! 1 = CHR '':'' then (take 2 p, drop 2 p) else ([], p))"

definition dirname :: "path \<Rightarrow> path" where
  "dirname p =
     (let (d, r) = splitdrive p;
          head = rev (dropWhile (\<lambda>c. \<not> is_sep c) (rev r));
          stripped = rev (dropWhile is_sep (rev head))
      in d @ (if stripped = [] then head else stripped))"

definition basename :: "path \<Rightarrow> string" where
  "basename p = (let (d, r) = splitdrive p in rev (takeWhile (\<lambda>c. \<not> is_sep c) (rev r)))"

definition path_stem :: "path \<Rightarrow> string" where
  "path_stem p =
     (let name = basename p in
      if CHR ''.'' \<in> set name then
        (let i = length name - 1 - length (takeWhile (\<lambda>c. c \<noteq> CHR ''.'') (rev name))
         in if 0 < i \<and> i < length name - 1 then take i name else name)
      else name)"

section \<open>The dependency checker\<close>

definition import_manim_code :: string where
  "import_manim_code = ''import manim; print('' @ [CHR 0x27] @ ''ok'' @ [CHR 0x27] @ '')''"

text \<open>
  The body of the \<^verbatim>\<open>try\<close> up to the lookup: a marker that is no JSON object raises (in
  \<^verbatim>\<open>json.load\<close>, or in \<^verbatim>\<open>marker.get\<close>), a missing key gives the current global.
\<close>

definition load_saved_exe :: "world \<Rightarrow> state \<Rightarrow> exc + jval" where
  "load_saved_exe w s =
     (case files s (SETUP_MARKER w) of
        None \<Rightarrow> Inl (Exc FileNotFoundError (SETUP_MARKER w))
      | Some (Opaque raw) \<Rightarrow> Inl (Exc ValueError ''Expecting value'')
      | Some (JsonObject kv) \<Rightarrow>
          (case map_of kv ''python_exe'' of
             None \<Rightarrow> Inr (JStr (PYTHON_EXE s))
           | Some v \<Rightarrow> Inr v))"

text \<open>
  \<^verbatim>\<open>is_setup_complete\<close> returns the answer and the state, in which it may have rebound
  the global.  A boolean \<^verbatim>\<open>python_exe\<close> would be read by \<^verbatim>\<open>os.path.isfile\<close> as a file
  descriptor; it is taken not to name a regular file.
\<close>

definition is_setup_complete :: "world \<Rightarrow> state \<Rightarrow> bool \<times> state" where
  "is_setup_complete w s =
     (if \<not> isfile s (SETUP_MARKER w) then (False, s)
      else
        (let s1 = (case load_saved_exe w s of
                     Inl e \<Rightarrow> s
                   | Inr (JStr saved_exe) \<Rightarrow>
                       if isfile s saved_exe then s\<lparr>PYTHON_EXE := saved_exe\<rparr> else s
                   | Inr (JBool b) \<Rightarrow> s)
         in if \<not> isfile s1 (PYTHON_EXE s1) then (False, s1)
            else
              (case subprocess_run w [PYTHON_EXE s1, ''-c'', import_manim_code] s1 of
                 (Next result, s2) \<Rightarrow> (strip (stdout result) = ''ok'', s2)
               | (Return, s2) \<Rightarrow> (False, s2)
               | (Raise e, s2) \<Rightarrow> (False, s2))))"

section \<open>The setup screen\<close>

definition update_status :: "message \<Rightarrow> (step \<times> status) option \<Rightarrow> state \<Rightarrow> state" where
  "update_status text chk s =
     (case chk of
        None \<Rightarrow> s\<lparr>status_var := text\<rparr>
      | Some (check_key, check_state) \<Rightarrow>
          s\<lparr>status_var := text, checks := (checks s)(check_key := check_state)\<rparr>)"

text \<open>\<^verbatim>\<open>_fail(message, check_key=None)\<close>: the step is marked only when a key is given.\<close>

definition fail :: "failure \<Rightarrow> step option \<Rightarrow> state \<Rightarrow> state" where
  "fail m check_key s =
     (let s1 = (case check_key of
                  None \<Rightarrow> s
                | Some k \<Rightarrow> s\<lparr>checks := (checks s)(k := Error)\<rparr>)
      in s1\<lparr>status_var := Msg_failed m, install_btn_disabled := False, installing := False\<rparr>)"

text \<open>The transition to the main screen, which follows after a short delay, is included.\<close>

definition on_install_complete :: "state \<Rightarrow> state" where
  "on_install_complete s = s\<lparr>status_var := Msg_install_complete, screen := Main_app\<rparr>"

definition on_skip_success :: "path \<Rightarrow> state \<Rightarrow> state" where
  "on_skip_success python_path s =
     s\<lparr>checks := (\<lambda>k. Done), status_var := Msg_skip_verified python_path, screen := Main_app\<rparr>"

definition on_skip_fail :: "string \<Rightarrow> state \<Rightarrow> state" where
  "on_skip_fail err s =
     s\<lparr>status_var := Msg_skip_failed err, install_btn_disabled := False,
       skip_btn_disabled := False\<rparr>"

subsection \<open>Downloads\<close>

text \<open>
  \<^verbatim>\<open>_download_file\<close> turns every failure into a \<open>RuntimeError\<close>.  The progress texts it
  shows while it runs are overwritten before the worker ends and are left out.
\<close>

definition download_file :: "world \<Rightarrow> string \<Rightarrow> path \<Rightarrow> unit prog" where
  "download_file w url dest s =
     (case urlopen w url of
        Fetched c \<Rightarrow>
          if isdir s dest then (Raise (Exc RuntimeError dest), logged (Download url dest) s)
          else (Next (), logged (Download url dest) (s\<lparr>files := (files s)(dest \<mapsto> c)\<rparr>))
      | FetchFailed msg partial \<Rightarrow>
          (Raise (Exc RuntimeError msg),
           logged (Download url dest)
             (case partial of
                None \<Rightarrow> s
              | Some c \<Rightarrow> if isdir s dest then s else s\<lparr>files := (files s)(dest \<mapsto> c)\<rparr>)))"

definition extractall :: "world \<Rightarrow> path \<Rightarrow> path \<Rightarrow> unit prog" where
  "extractall w zip_path dest s =
     (case files s zip_path of
        None \<Rightarrow> (Raise (Exc FileNotFoundError zip_path), logged (Extract zip_path dest) s)
      | Some c \<Rightarrow>
          (case unzip w c of
             Some e \<Rightarrow> (Raise e, logged (Extract zip_path dest) s)
           | None \<Rightarrow> (Next (), logged (Extract zip_path dest) (s\<lparr>dirs := (dirs s)(dest := True)\<rparr>))))"

definition installer_url :: string where
  "installer_url = ''https://www.python.org/ftp/python/'' @ PYTHON_VERSION
                   @ ''/python-'' @ PYTHON_VERSION @ ''-amd64.exe''"

definition download_python_body :: "world \<Rightarrow> path option prog" where
  "download_python_body w =
     (let nuget_dir = path_join (APP_DIR w) ''python_standalone'';
          zip_path = path_join (APP_DIR w) ''python_embed.zip'';
          embed_dir = path_join (APP_DIR w) ''python_embed'';
          installer_path = path_join (APP_DIR w) ''python_installer.exe'';
          python_install_dir = path_join (APP_DIR w) ''python'';
          python_exe = path_join python_install_dir ''python.exe''
      in
      seq (makedirs nuget_dir) (\<lambda>_.
      seq (download_file w PYTHON_EMBED_URL zip_path) (\<lambda>_.
      seq (\<lambda>s. if isdir s embed_dir then rmtree w embed_dir s else (Next (), s)) (\<lambda>_.
      seq (extractall w zip_path embed_dir) (\<lambda>_.
      seq (os_remove w zip_path) (\<lambda>_.
      seq (effect (update_status Msg_downloading_installer None)) (\<lambda>_.
      seq (download_file w installer_url installer_path) (\<lambda>_.
      seq (effect (update_status Msg_installing_python None)) (\<lambda>_.
      seq (subprocess_run_leaving w
             [installer_path, ''/quiet'', ''InstallAllUsers=0'',
              ''TargetDir='' @ python_install_dir, ''PrependPath=0'', ''Include_test=0'',
              ''Include_launcher=0'', ''Include_pip=1'']
             python_exe) (\<lambda>result.
      seq (except_OSError_pass (os_remove w installer_path)) (\<lambda>_.
      seq (rmtree_ignore_errors w embed_dir) (\<lambda>_.
      (\<lambda>s. if isfile s python_exe then (Next (Some python_exe), s)
           else (Next None, s))))))))))))))"

text \<open>\<^verbatim>\<open>_download_python\<close>: the whole body is under \<^verbatim>\<open>except Exception: return None\<close>.\<close>

definition download_python :: "world \<Rightarrow> path option prog" where
  "download_python w s =
     (case download_python_body w s of
        (Raise e, s') \<Rightarrow> (Next None, s')
      | r \<Rightarrow> r)"

subsection \<open>The install worker, step by step\<close>

definition venv_python :: "world \<Rightarrow> path" where
  "venv_python w = path_join (path_join (VENV_DIR w) ''Scripts'') ''python.exe''"

definition venv_command :: "world \<Rightarrow> path \<Rightarrow> string list" where
  "venv_command w python_for_venv = [python_for_venv, ''-m'', ''venv'', VENV_DIR w]"

text \<open>
  Python's truth test on a path or \<^verbatim>\<open>None\<close> (\<^verbatim>\<open>if system_python:\<close>), and the path that
  passed it.
\<close>

definition truthy :: "path option \<Rightarrow> bool" where
  "truthy x = (case x of None \<Rightarrow> False | Some p \<Rightarrow> p \<noteq> [])"

definition path_of :: "path option \<Rightarrow> path" where
  "path_of x = (case x of None \<Rightarrow> [] | Some p \<Rightarrow> p)"

text \<open>Step 1: find or download Python.  The result is \<^verbatim>\<open>python_for_venv\<close>.\<close>

definition acquire_python :: "world \<Rightarrow> path prog" where
  "acquire_python w =
     seq (effect (update_status Msg_searching_python (Some (Python, Active)))) (\<lambda>_.
     seq (find_system_python w) (\<lambda>system_python.
       if truthy system_python then
         seq (effect (update_status Msg_system_python_found (Some (Python, Done)))) (\<lambda>_.
         pure (path_of system_python))
       else
         seq (effect (update_status Msg_downloading_python (Some (Python, Active)))) (\<lambda>_.
         seq (download_python w) (\<lambda>python_for_venv.
           if \<not> truthy python_for_venv then
             seq (effect (fail Python_download_failed (Some Python))) (\<lambda>_. return_now)
           else
             seq (effect (update_status Msg_python_downloaded (Some (Python, Done)))) (\<lambda>_.
             pure (path_of python_for_venv))))))"

text \<open>Step 2: remove an existing environment directory, then create the environment.\<close>

definition create_venv :: "world \<Rightarrow> path \<Rightarrow> unit prog" where
  "create_venv w python_for_venv =
     seq (effect (update_status Msg_creating_venv (Some (Venv, Active)))) (\<lambda>_.
     seq (\<lambda>s. if isdir s (VENV_DIR w) then rmtree_ignore_errors w (VENV_DIR w) s
              else (Next (), s)) (\<lambda>_.
     seq (subprocess_run w (venv_command w python_for_venv)) (\<lambda>result.
       if returncode result \<noteq> 0 then
         seq (effect (fail (Venv_failed (take 200 (stderr result))) (Some Venv))) (\<lambda>_. return_now)
       else effect (update_status Msg_venv_created (Some (Venv, Done))))))"

text \<open>Step 3: make sure pip is there, then upgrade it (the upgrade's exit status is ignored).\<close>

definition ensure_pip :: "world \<Rightarrow> unit prog" where
  "ensure_pip w =
     (let get_pip_path = path_join (APP_DIR w) ''get-pip.py'' in
      seq (effect (update_status Msg_checking_pip (Some (Pip, Active)))) (\<lambda>_.
      seq (subprocess_run w [venv_python w, ''-m'', ''pip'', ''--version'']) (\<lambda>result.
      seq (if returncode result \<noteq> 0 then
             seq (effect (update_status Msg_downloading_pip (Some (Pip, Active)))) (\<lambda>_.
             seq (download_file w GET_PIP_URL get_pip_path) (\<lambda>_.
             seq (subprocess_run w [venv_python w, get_pip_path]) (\<lambda>result2.
               if returncode result2 \<noteq> 0 then
                 seq (effect (fail (Pip_failed (take 200 (stderr result2))) (Some Pip)))
                   (\<lambda>_. return_now)
               else except_OSError_pass (os_remove w get_pip_path))))
           else pure ()) (\<lambda>_.
      seq (subprocess_run w [venv_python w, ''-m'', ''pip'', ''install'', ''--upgrade'', ''pip''])
        (\<lambda>upgraded.
      effect (update_status Msg_pip_ready (Some (Pip, Done))))))))"

text \<open>Step 4: install Manim.\<close>

definition install_manim :: "world \<Rightarrow> unit prog" where
  "install_manim w =
     seq (effect (update_status Msg_installing_manim (Some (Manim, Active)))) (\<lambda>_.
     seq (subprocess_run w [venv_python w, ''-m'', ''pip'', ''install'', ''manim'']) (\<lambda>result.
       if returncode result \<noteq> 0 then
         seq (effect (fail (Manim_failed (take 300 (stderr result))) (Some Manim)))
           (\<lambda>_. return_now)
       else effect (update_status Msg_manim_installed (Some (Manim, Done)))))"

text \<open>
  Step 5: check FFmpeg.  The two probes run under \<^verbatim>\<open>except FileNotFoundError: pass\<close>;
  the fallback installation is outside it and its exit status is ignored.
\<close>

definition ffmpeg_probe_code :: string where
  "ffmpeg_probe_code =
     ''from manim.utils.file_ops import *; print('' @ [CHR 0x27] @ ''ok'' @ [CHR 0x27] @ '')''"

definition probe_ffmpeg :: "world \<Rightarrow> bool prog" where
  "probe_ffmpeg w s =
     (case seq (subprocess_run w [venv_python w, ''-c'', ffmpeg_probe_code]) (\<lambda>result.
           seq (subprocess_run w [''ffmpeg'', ''-version'']) (\<lambda>ff_result.
           pure (returncode ff_result = 0))) s of
        (Raise e, s') \<Rightarrow> if is_FileNotFoundError e then (Next False, s') else (Raise e, s')
      | r \<Rightarrow> r)"

definition check_ffmpeg :: "world \<Rightarrow> unit prog" where
  "check_ffmpeg w =
     seq (effect (update_status Msg_checking_ffmpeg (Some (Ffmpeg, Active)))) (\<lambda>_.
     seq (probe_ffmpeg w) (\<lambda>ffmpeg_ok.
     seq (if \<not> ffmpeg_ok then
            seq (subprocess_run w
                   [venv_python w, ''-m'', ''pip'', ''install'', ''imageio[ffmpeg]''])
              (\<lambda>fallback. pure ())
          else pure ()) (\<lambda>_.
     effect (update_status Msg_ffmpeg_ready (Some (Ffmpeg, Done))))))"

text \<open>Done: write the marker.  \<^verbatim>\<open>python_exe\<close> is the global as it is at that moment.\<close>

definition install_record :: "world \<Rightarrow> state \<Rightarrow> content" where
  "install_record w s =
     JsonObject [(''python_version'', JStr PYTHON_VERSION),
                 (''venv_dir'', JStr (VENV_DIR w)),
                 (''python_exe'', JStr (PYTHON_EXE s))]"

definition write_marker :: "world \<Rightarrow> unit prog" where
  "write_marker w s = write_file (SETUP_MARKER w) (install_record w s) s"

text \<open>The body of the worker's \<^verbatim>\<open>try\<close>, and the worker with its \<^verbatim>\<open>except Exception\<close>.\<close>

definition install_body :: "world \<Rightarrow> unit prog" where
  "install_body w =
     seq (makedirs (APP_DIR w)) (\<lambda>_.
     seq (acquire_python w) (\<lambda>python_for_venv.
     seq (create_venv w python_for_venv) (\<lambda>_.
     seq (ensure_pip w) (\<lambda>_.
     seq (install_manim w) (\<lambda>_.
     seq (check_ffmpeg w) (\<lambda>_.
     seq (write_marker w) (\<lambda>_.
     effect on_install_complete)))))))"

definition install_worker :: "world \<Rightarrow> state \<Rightarrow> state" where
  "install_worker w s =
     (case install_body w s of
        (Raise e, s') \<Rightarrow> fail (Unexpected (take 200 (exc_str e))) None s'
      | (r, s') \<Rightarrow> s')"

definition start_install :: "world \<Rightarrow> state \<Rightarrow> state" where
  "start_install w s =
     (if installing s then s
      else install_worker w
             (s\<lparr>installing := True, install_btn_disabled := True, skip_btn_disabled := True\<rparr>))"

subsection \<open>Skipping the setup with an existing interpreter\<close>

definition skip_record :: "path \<Rightarrow> content" where
  "skip_record chosen =
     JsonObject [(''python_version'', JStr ''custom''),
                 (''venv_dir'', JStr (dirname (dirname chosen))),
                 (''python_exe'', JStr chosen),
                 (''skipped_setup'', JBool True)]"

definition validate_body :: "world \<Rightarrow> path \<Rightarrow> unit prog" where
  "validate_body w chosen =
     seq (subprocess_run w [chosen, ''-c'', import_manim_code]) (\<lambda>result.
       if strip (stdout result) = ''ok'' then
         seq (makedirs (APP_DIR w)) (\<lambda>_.
         seq (write_file (SETUP_MARKER w) (skip_record chosen)) (\<lambda>_.
         seq (effect (\<lambda>s. s\<lparr>PYTHON_EXE := chosen\<rparr>)) (\<lambda>_.
         effect (on_skip_success chosen))))
       else
         effect (on_skip_fail (if stderr result \<noteq> [] then take 200 (stderr result)
                               else ''manim import edilemedi'')))"

text \<open>
  In the \<^verbatim>\<open>except Exception as e\<close> branch the posted callback is
  \<^verbatim>\<open>lambda: self._on_skip_fail(str(e))\<close>: it reads \<^verbatim>\<open>e\<close> when the event loop runs it.  If
  the block has ended by then, \<^verbatim>\<open>e\<close> is unbound, the callback dies with a \<open>NameError\<close>
  inside the event loop and the screen stays as it is.
\<close>

definition validate :: "world \<Rightarrow> path \<Rightarrow> state \<Rightarrow> state" where
  "validate w chosen s =
     (case validate_body w chosen s of
        (Raise e, s') \<Rightarrow>
          if callback_after_except w then s' else on_skip_fail (exc_str e) s'
      | (r, s') \<Rightarrow> s')"

text \<open>\<^verbatim>\<open>chosen\<close> is what the file dialog returns: the empty string when it is cancelled.\<close>

definition skip_setup :: "world \<Rightarrow> path \<Rightarrow> state \<Rightarrow> state" where
  "skip_setup w chosen s =
     (if installing s then s
      else if chosen = [] then s
      else validate w chosen
             (s\<lparr>status_var := Msg_skip_checking, install_btn_disabled := True,
                skip_btn_disabled := True\<rparr>))"

section \<open>The entry point and the headless mode\<close>

text \<open>
  \<^verbatim>\<open>print(text)\<close>: the line goes to standard output, or the encoder of standard output
  raises and nothing is written.
\<close>

definition print_line :: "world \<Rightarrow> line \<Rightarrow> unit prog" where
  "print_line w l s =
     (if stdout_encodes w l then (Next (), s\<lparr>printed := printed s @ [l]\<rparr>)
      else (Raise (Exc UnicodeEncodeError ''codec cannot encode character''), s))"

definition nl :: string where
  "nl = [CHR 0x0A]"

definition scene_code :: "string \<Rightarrow> string \<Rightarrow> string" where
  "scene_code svg_escaped file_name_no_ext =
     ''from manim import *'' @ nl
     @ ''class LogoAnimation(Scene):'' @ nl
     @ ''    def construct(self):'' @ nl
     @ ''        m = SVGMobject(r'' @ [CHR 0x27] @ svg_escaped @ [CHR 0x27]
     @ '').scale(1).shift(UP)'' @ nl
     @ ''        t = Text(r'' @ [CHR 0x27] @ file_name_no_ext @ [CHR 0x27]
     @ '').scale(1.5).next_to(m, DOWN)'' @ nl
     @ ''        self.play(Write(m, run_time=2))'' @ nl
     @ ''        self.play(Write(t, run_time=1))'' @ nl
     @ ''        self.wait(2)'' @ nl"

definition dq :: string where
  "dq = [CHR 0x22]"

definition render_command :: "path \<Rightarrow> path \<Rightarrow> path \<Rightarrow> string" where
  "render_command python_exe script_path output_path =
     dq @ python_exe @ dq @ '' -m manim '' @ dq @ script_path @ dq @ '' LogoAnimation ''
     @ ''-r 3840,2160 -f 60 --renderer=cairo --write_to_movie ''
     @ ''--output_file '' @ dq @ output_path @ dq"

definition script_path :: "world \<Rightarrow> path" where
  "script_path w = path_join (tempdir w) ''manim_temp.py''"

definition output_path :: "world \<Rightarrow> path \<Rightarrow> path" where
  "output_path w svg_path =
     path_join (home w @ ''/Desktop'') (path_stem svg_path @ ''_animation.mp4'')"

definition process_svg_cli :: "world \<Rightarrow> path \<Rightarrow> unit prog" where
  "process_svg_cli w svg_path s =
     (if \<not> isfile s svg_path then print_line w (File_not_found svg_path) s
      else
        (case is_setup_complete w s of
           (False, s1) \<Rightarrow> print_line w Not_set_up s1
         | (True, s1) \<Rightarrow>
             (let file_name_no_ext = path_stem svg_path;
                  svg_escaped = concat (map (\<lambda>c. if c = CHR 0x5C then bsl @ bsl else [c]) svg_path);
                  python_code = scene_code svg_escaped file_name_no_ext;
                  command = render_command (PYTHON_EXE s1) (script_path w) (output_path w svg_path)
              in
              (seq (except_FileNotFoundError_pass (os_remove w (script_path w))) (\<lambda>_.
               seq (write_file (script_path w) (Opaque python_code)) (\<lambda>_.
               seq (shell_run w command (output_path w svg_path)) (\<lambda>rendering.
               seq (except_FileNotFoundError_pass (os_remove w (script_path w))) (\<lambda>_.
               (\<lambda>s4. if isfile s4 (output_path w svg_path)
                     then print_line w (Video_created (output_path w svg_path)) s4
                     else print_line w Video_failed s4)))))) s1)))"

text \<open>\<^verbatim>\<open>main\<close> on \<^verbatim>\<open>sys.argv\<close>.  Opening a window is recorded as the screen it shows.\<close>

definition main :: "world \<Rightarrow> string list \<Rightarrow> unit prog" where
  "main w argv s =
     (if length argv > 1 then
        (let arg = argv ! 1 in
         if arg = ''--setup'' then (Next (), s\<lparr>screen := Setup_wizard\<rparr>)
         else if arg = ''--cli'' then
           (if length argv > 2 then process_svg_cli w (argv ! 2) s
            else print_line w Usage s)
         else process_svg_cli w arg s)
      else
        (case is_setup_complete w s of
           (True, s1) \<Rightarrow> (Next (), s1\<lparr>screen := Main_app\<rparr>)
         | (False, s1) \<Rightarrow> (Next (), s1\<lparr>screen := Setup_wizard\<rparr>)))"

text \<open>
  What the specification calls a usable candidate: it is a non-empty path to an existing
  file whose version query answers (with whatever exit status) a text that names
  Python 3 and whose second dot-separated field is an integer of at least 8.
\<close>

definition version_ok :: "string \<Rightarrow> bool" where
  "version_ok out =
     (let v = strip out in
      contains ''Python 3.'' v \<and> length (split_dot v) \<ge> 2 \<and>
      (case py_int (split_dot v ! 1) of Inl e \<Rightarrow> False | Inr minor \<Rightarrow> minor \<ge> 8))"

definition usable :: "world \<Rightarrow> state \<Rightarrow> path option \<Rightarrow> bool" where
  "usable w s c =
     (case c of
        None \<Rightarrow> False
      | Some p \<Rightarrow> p \<noteq> [] \<and> isfile s p \<and>
          (case run w [p, ''--version''] of Inl e \<Rightarrow> False | Inr r \<Rightarrow> version_ok (stdout r)))"

definition first_usable :: "world \<Rightarrow> state \<Rightarrow> path option" where
  "first_usable w s =
     (case List.find (usable w s) (candidates w) of None \<Rightarrow> None | Some c \<Rightarrow> c)"

text \<open>
  The notions the readiness check is described with: whether the import probe run with
  an interpreter prints \<^verbatim>\<open>ok\<close>, the interpreter path the marker names (when the marker
  is a JSON object with a string under \<^verbatim>\<open>python_exe\<close>), and the interpreter the check
  ends up using.
\<close>

definition import_ok :: "world \<Rightarrow> path \<Rightarrow> bool" where
  "import_ok w exe =
     (case run w [exe, ''-c'', import_manim_code] of
        Inl e \<Rightarrow> False
      | Inr r \<Rightarrow> strip (stdout r) = ''ok'')"

definition marker_exe :: "world \<Rightarrow> state \<Rightarrow> path option" where
  "marker_exe w s =
     (case files s (SETUP_MARKER w) of
        Some (JsonObject kv) \<Rightarrow>
          (case map_of kv ''python_exe'' of Some (JStr p) \<Rightarrow> Some p | _ \<Rightarrow> None)
      | _ \<Rightarrow> None)"

definition effective_exe :: "world \<Rightarrow> state \<Rightarrow> path" where
  "effective_exe w s =
     (case marker_exe w s of
        None \<Rightarrow> PYTHON_EXE s
      | Some p \<Rightarrow> if isfile s p then p else PYTHON_EXE s)"

section \<open>Notions for stating and proving the worker's properties\<close>

text \<open>
  A program keeps an observation of the state when running it never changes what the
  observation shows; a program never returns when it has no early \<^verbatim>\<open>return\<close>.
\<close>

definition keeps :: "(state \<Rightarrow> 'b) \<Rightarrow> 'a prog \<Rightarrow> bool" where
  "keeps g m = (\<forall>s. g (snd (m s)) = g s)"

definition never_returns :: "'a prog \<Rightarrow> bool" where
  "never_returns m = (\<forall>s. fst (m s) \<noteq> Return)"

text \<open>
  Three observations: the marker file together with the global interpreter path, the
  part of the setup screen that only status updates touch, and the property of an
  observation not to depend on the file system or the log.
\<close>

definition marker_view :: "world \<Rightarrow> state \<Rightarrow> content option \<times> bool \<times> path" where
  "marker_view w s = (files s (SETUP_MARKER w), dirs s (SETUP_MARKER w), PYTHON_EXE s)"

definition panel :: "state \<Rightarrow> (step \<Rightarrow> status) \<times> bool \<times> screen \<times> line list" where
  "panel s = (checks s, installing s, screen s, printed s)"

definition fs_blind :: "(state \<Rightarrow> 'b) \<Rightarrow> bool" where
  "fs_blind g = ((\<forall>s f. g (s\<lparr>files := f\<rparr>) = g s) \<and> (\<forall>s d. g (s\<lparr>dirs := d\<rparr>) = g s)
                 \<and> (\<forall>s l. g (s\<lparr>oplog := l\<rparr>) = g s))"

text \<open>
  The steps in their order.  The status a step is left with when its code ends: done
  when it completes, error when it reports the failure itself and returns, active
  (as set at its start) when an exception leaves it.
\<close>

fun step_no :: "step \<Rightarrow> nat" where
  "step_no Python = 0"
| "step_no Venv = 1"
| "step_no Pip = 2"
| "step_no Manim = 3"
| "step_no Ffmpeg = 4"

fun mark :: "'a flow \<Rightarrow> status" where
  "mark (Next x) = Done"
| "mark Return = Error"
| "mark (Raise e) = Active"

definition marks_step :: "world \<Rightarrow> step \<Rightarrow> 'a prog \<Rightarrow> bool" where
  "marks_step w k m =
     (\<forall>s. marker_view w (snd (m s)) = marker_view w s
          \<and> checks (snd (m s)) = (checks s)(k := mark (fst (m s)))
          \<and> installing (snd (m s)) = (installing s \<and> fst (m s) \<noteq> Return)
          \<and> screen (snd (m s)) = screen s)"

text \<open>
  The checklist of a run that stopped at step \<open>k\<close>: the steps before \<open>k\<close> are done,
  \<open>k\<close> has the status \<open>st\<close>, and the steps after \<open>k\<close> show what they showed when the run
  started (pending, on a screen that has just been opened).
\<close>

definition stopped_at :: "step \<Rightarrow> status \<Rightarrow> (step \<Rightarrow> status) \<Rightarrow> (step \<Rightarrow> status) \<Rightarrow> bool" where
  "stopped_at k st c c' =
     (\<forall>j. c' j = (if step_no j < step_no k then Done else if j = k then st else c j))"

text \<open>
  The body of the worker's \<^verbatim>\<open>try\<close> up to and including each step.  That a run reaches
  the encoder check is \<open>fst (upto_manim w s) = Next ()\<close>.
\<close>

definition upto_python :: "world \<Rightarrow> path prog" where
  "upto_python w = seq (makedirs (APP_DIR w)) (\<lambda>_. acquire_python w)"

definition upto_venv :: "world \<Rightarrow> unit prog" where
  "upto_venv w = seq (upto_python w) (\<lambda>python_for_venv. create_venv w python_for_venv)"

definition upto_pip :: "world \<Rightarrow> unit prog" where
  "upto_pip w = seq (upto_venv w) (\<lambda>_. ensure_pip w)"

definition upto_manim :: "world \<Rightarrow> unit prog" where
  "upto_manim w = seq (upto_pip w) (\<lambda>_. install_manim w)"

definition upto_ffmpeg :: "world \<Rightarrow> unit prog" where
  "upto_ffmpeg w = seq (upto_manim w) (\<lambda>_. check_ffmpeg w)"

text \<open>What holds after such a prefix of the run, by the way it ended.\<close>

definition summary :: "world \<Rightarrow> step \<Rightarrow> state \<Rightarrow> 'a flow \<times> state \<Rightarrow> bool" where
  "summary w k s r =
     (case r of (f, s') \<Rightarrow>
        marker_view w s' = marker_view w s \<and> screen s' = screen s \<and>
        (case f of
           Next x \<Rightarrow> installing s' = installing s
                     \<and> checks s' = (\<lambda>j. if step_no j \<le> step_no k then Done else checks s j)
         | Return \<Rightarrow> \<not> installing s'
                     \<and> (\<exists>k'. step_no k' \<le> step_no k \<and> k' \<noteq> Ffmpeg
                              \<and> stopped_at k' Error (checks s) (checks s'))
         | Raise e \<Rightarrow> installing s' = installing s
                     \<and> (checks s' = checks s
                         \<or> (\<exists>k'. step_no k' \<le> step_no k
                                  \<and> stopped_at k' Active (checks s) (checks s')))))"

text \<open>
  The outcomes of the encoder check that the code lets pass: every command of the step
  returns, with whatever exit status, or a probe finds its executable missing; the
  fallback installation, when it is run, returns.
\<close>

definition fallback_completes :: "world \<Rightarrow> bool" where
  "fallback_completes w =
     (case run w [venv_python w, ''-m'', ''pip'', ''install'', ''imageio[ffmpeg]''] of
        Inl e \<Rightarrow> False
      | Inr r \<Rightarrow> True)"

definition ffmpeg_step_tolerated :: "world \<Rightarrow> bool" where
  "ffmpeg_step_tolerated w =
     (case run w [venv_python w, ''-c'', ffmpeg_probe_code] of
        Inl e \<Rightarrow> is_FileNotFoundError e \<and> fallback_completes w
      | Inr r \<Rightarrow>
          (case run w [''ffmpeg'', ''-version''] of
             Inl e \<Rightarrow> is_FileNotFoundError e \<and> fallback_completes w
           | Inr ff \<Rightarrow> returncode ff = 0 \<or> fallback_completes w))"

text \<open>A field of a file that holds a JSON object.\<close>

definition record_field :: "content option \<Rightarrow> string \<Rightarrow> jval option" where
  "record_field c k =
     (case c of
        Some (JsonObject kv) \<Rightarrow> map_of kv k
      | _ \<Rightarrow> None)"

text \<open>
  What the file system holds at one path, and the rest of the worker's \<^verbatim>\<open>try\<close> after
  the environment has been created.
\<close>

definition entry :: "path \<Rightarrow> state \<Rightarrow> content option \<times> bool" where
  "entry p s = (files s p, dirs s p)"

definition after_venv :: "world \<Rightarrow> unit prog" where
  "after_venv w =
     seq (ensure_pip w) (\<lambda>_.
     seq (install_manim w) (\<lambda>_.
     seq (check_ffmpeg w) (\<lambda>_.
     seq (write_marker w) (\<lambda>_.
     effect on_install_complete))))"

text \<open>
  The command line the headless mode hands to the shell, for a state in which the
  readiness check has not yet run.
\<close>

definition render_command_of :: "world \<Rightarrow> state \<Rightarrow> path \<Rightarrow> string" where
  "render_command_of w s svg_path =
     render_command (effective_exe w s) (script_path w) (output_path w svg_path)"

section \<open>Concrete worlds and states\<close>

text \<open>
  A machine on which nothing is installed and the network is down: every command exits
  with status 0 and prints nothing, and standard output takes every character.  The
  scenarios below change single fields of it.
\<close>

definition silent :: completed where
  "silent = \<lparr>returncode = 0, stdout = [], stderr = []\<rparr>"

definition bare_world :: world where
  "bare_world =
     \<lparr>home = ''C:'' @ bsl @ ''me'',
      localappdata = None,
      tempdir = ''C:'' @ bsl @ ''tmp'',
      which = (\<lambda>name. None),
      run = (\<lambda>argv. Inr silent),
      leaves = (\<lambda>argv. None),
      run_shell = (\<lambda>cmd. Inr silent),
      rendered = (\<lambda>cmd. None),
      urlopen = (\<lambda>url. FetchFailed ''offline'' None),
      unzip = (\<lambda>c. None),
      undeletable = [],
      stdout_encodes = (\<lambda>l. True),
      callback_after_except = True\<rparr>"

text \<open>The process right after start, on a disk holding the given files and directories.\<close>

definition start_state :: "world \<Rightarrow> (path \<rightharpoonup> content) \<Rightarrow> (path \<Rightarrow> bool) \<Rightarrow> state" where
  "start_state w fs ds =
     \<lparr>files = fs, dirs = ds, PYTHON_EXE = PYTHON_EXE_default w, installing = False,
      checks = (\<lambda>k. Pending), status_var = Msg_click_to_start,
      install_btn_disabled = False, skip_btn_disabled = False,
      screen = No_window, printed = [], oplog = []\<rparr>"

text \<open>
  Three interpreters on the search path: the first times out, the second is Python 3.7,
  the third prints a version that is no number.
\<close>

definition three_bad_pythons :: world where
  "three_bad_pythons = bare_world
     \<lparr>which := (\<lambda>name. if name = ''python'' then Some ''C:/a/python.exe''
                        else if name = ''python3'' then Some ''C:/b/python3.exe''
                        else if name = ''py'' then Some ''C:/c/py.exe'' else None),
      run := (\<lambda>argv.
                if argv = [''C:/a/python.exe'', ''--version'']
                then Inl (Exc TimeoutExpired ''timed out after 5 seconds'')
                else if argv = [''C:/b/python3.exe'', ''--version'']
                then Inr \<lparr>returncode = 0, stdout = ''Python 3.7.9'', stderr = []\<rparr>
                else if argv = [''C:/c/py.exe'', ''--version'']
                then Inr \<lparr>returncode = 0, stdout = ''Python 3.x'', stderr = []\<rparr>
                else Inr silent)\<rparr>"

definition three_bad_pythons_disk :: "path \<rightharpoonup> content" where
  "three_bad_pythons_disk =
     [''C:/a/python.exe'' \<mapsto> Opaque [], ''C:/b/python3.exe'' \<mapsto> Opaque [],
      ''C:/c/py.exe'' \<mapsto> Opaque []]"

text \<open>An interpreter that answers the version query but exits with status 1.\<close>

definition nonzero_python :: world where
  "nonzero_python = bare_world
     \<lparr>which := (\<lambda>name. if name = ''python'' then Some ''C:/a/python.exe'' else None),
      run := (\<lambda>argv.
                if argv = [''C:/a/python.exe'', ''--version'']
                then Inr \<lparr>returncode = 1, stdout = ''Python 3.11.9'', stderr = []\<rparr>
                else Inr silent)\<rparr>"

text \<open>
  A marker left by a skipped setup names an interpreter that is still on disk, but the
  interpreter cannot import Manim (it prints nothing).
\<close>

definition custom_marker :: content where
  "custom_marker =
     JsonObject [(''python_version'', JStr ''custom''), (''venv_dir'', JStr ''C:/''),
                 (''python_exe'', JStr ''C:/py/python.exe''), (''skipped_setup'', JBool True)]"

definition custom_disk :: "path \<rightharpoonup> content" where
  "custom_disk =
     [SETUP_MARKER bare_world \<mapsto> custom_marker, ''C:/py/python.exe'' \<mapsto> Opaque []]"

text \<open>
  The same marker and interpreter, and the interpreter imports Manim.
\<close>

definition custom_ready :: world where
  "custom_ready = bare_world
     \<lparr>run := (\<lambda>argv.
                if argv = [''C:/py/python.exe'', ''-c'', import_manim_code]
                then Inr \<lparr>returncode = 0, stdout = ''ok'' @ [CHR 0x0A], stderr = []\<rparr>
                else Inr silent)\<rparr>"

text \<open>
  A marker that is no JSON, while the interpreter of the private environment is on disk
  and imports Manim.
\<close>

definition venv_ready :: world where
  "venv_ready = bare_world
     \<lparr>run := (\<lambda>argv.
                if argv = [PYTHON_EXE_default bare_world, ''-c'', import_manim_code]
                then Inr \<lparr>returncode = 0, stdout = ''ok'' @ [CHR 0x0A], stderr = []\<rparr>
                else Inr silent)\<rparr>"

definition broken_marker_disk :: "path \<rightharpoonup> content" where
  "broken_marker_disk =
     [SETUP_MARKER bare_world \<mapsto> Opaque ''{'', PYTHON_EXE_default bare_world \<mapsto> Opaque []]"

text \<open>
  A usable Python is on the search path and every later command succeeds; then single
  commands are made to fail.
\<close>

definition python_on_path :: world where
  "python_on_path = bare_world
     \<lparr>which := (\<lambda>name. if name = ''python'' then Some ''C:/a/python.exe'' else None),
      run := (\<lambda>argv.
                if argv = [''C:/a/python.exe'', ''--version'']
                then Inr \<lparr>returncode = 0, stdout = ''Python 3.11.9'', stderr = []\<rparr>
                else Inr silent)\<rparr>"

definition python_disk :: "path \<rightharpoonup> content" where
  "python_disk = [''C:/a/python.exe'' \<mapsto> Opaque []]"

definition python_state :: "world \<Rightarrow> state" where
  "python_state w = start_state w python_disk (\<lambda>d. False)"



text \<open>
  No \<^verbatim>\<open>ffmpeg\<close> executable on the machine, and the fallback package cannot be
  installed either.
\<close>

definition no_ffmpeg :: world where
  "no_ffmpeg = python_on_path
     \<lparr>run := (\<lambda>argv.
                if argv = [''ffmpeg'', ''-version'']
                then Inl (Exc FileNotFoundError ''[WinError 2]'')
                else if argv = [venv_python python_on_path, ''-m'', ''pip'', ''install'',
                                ''imageio[ffmpeg]'']
                then Inr \<lparr>returncode = 1, stdout = [], stderr = ''ERROR: no network''\<rparr>
                else run python_on_path argv)\<rparr>"

text \<open>The \<^verbatim>\<open>ffmpeg -version\<close> probe hangs and runs into its timeout.\<close>

definition ffmpeg_times_out :: world where
  "ffmpeg_times_out = python_on_path
     \<lparr>run := (\<lambda>argv.
                if argv = [''ffmpeg'', ''-version'']
                then Inl (Exc TimeoutExpired ''timed out after 10 seconds'')
                else run python_on_path argv)\<rparr>"

text \<open>
  An interpreter without Manim whose import error fills 201 characters of standard
  error, and one whose import probe runs into its timeout.
\<close>

definition import_fails_verbosely :: world where
  "import_fails_verbosely = bare_world
     \<lparr>run := (\<lambda>argv.
                if argv = [''C:/py/python.exe'', ''-c'', import_manim_code]
                then Inr \<lparr>returncode = 1, stdout = [],
                          stderr = replicate 200 (CHR ''a'') @ ''b''\<rparr>
                else Inr silent)\<rparr>"

definition import_times_out :: world where
  "import_times_out = bare_world
     \<lparr>run := (\<lambda>argv.
                if argv = [''C:/py/python.exe'', ''-c'', import_manim_code]
                then Inl (Exc TimeoutExpired ''timed out after 20 seconds'')
                else Inr silent)\<rparr>"

text \<open>
  A usable Python is on the search path, and the disk still holds the marker of an
  earlier skipped setup together with the interpreter it names.
\<close>

definition stale_custom_disk :: "path \<rightharpoonup> content" where
  "stale_custom_disk =
     [SETUP_MARKER bare_world \<mapsto> custom_marker, ''C:/py/python.exe'' \<mapsto> Opaque [],
      ''C:/a/python.exe'' \<mapsto> Opaque []]"

text \<open>
  An environment directory of an earlier run, holding one file.  In the last world the
  operating system refuses to delete that file (it is in use).
\<close>

definition old_file :: path where
  "old_file = VENV_DIR bare_world @ bsl @ ''old.txt''"

definition old_env_disk :: "path \<rightharpoonup> content" where
  "old_env_disk = [''C:/a/python.exe'' \<mapsto> Opaque [], old_file \<mapsto> Opaque ''stale'']"

definition old_env_state :: "world \<Rightarrow> state" where
  "old_env_state w = start_state w old_env_disk (\<lambda>d. d = VENV_DIR bare_world)"

definition old_file_locked :: world where
  "old_file_locked = python_on_path\<lparr>undeletable := [old_file]\<rparr>"

text \<open>
  A machine that is set up, with an SVG file to convert.  The renderer leaves a video
  although it exits with status 1.
\<close>

definition renders_with_status_1 :: world where
  "renders_with_status_1 = custom_ready
     \<lparr>run_shell := (\<lambda>cmd. Inr \<lparr>returncode = 1, stdout = [], stderr = []\<rparr>),
      rendered := (\<lambda>cmd. Some (Opaque ''video''))\<rparr>"

definition svg_disk :: "path \<rightharpoonup> content" where
  "svg_disk =
     [SETUP_MARKER bare_world \<mapsto> custom_marker, ''C:/py/python.exe'' \<mapsto> Opaque [],
      ''C:/art/logo.svg'' \<mapsto> Opaque ''<svg/>'']"

text \<open>
  The same machine, where the script of an earlier conversion is still in the temporary
  directory and cannot be deleted.
\<close>

definition script_locked :: world where
  "script_locked = custom_ready\<lparr>undeletable := [script_path bare_world]\<rparr>"

definition stale_script_disk :: "path \<rightharpoonup> content" where
  "stale_script_disk =
     [SETUP_MARKER bare_world \<mapsto> custom_marker, ''C:/py/python.exe'' \<mapsto> Opaque [],
      ''C:/art/logo.svg'' \<mapsto> Opaque ''<svg/>'', script_path bare_world \<mapsto> Opaque []]"

text \<open>
  Standard output is redirected under a code page that lacks the characters of the
  program's lines: on the bare machine, and on the machine that is set up and renders.
\<close>

definition ansi_stdout :: world where
  "ansi_stdout = bare_world\<lparr>stdout_encodes := (\<lambda>l. False)\<rparr>"

definition renders_to_ansi_stdout :: world where
  "renders_to_ansi_stdout = renders_with_status_1\<lparr>stdout_encodes := (\<lambda>l. False)\<rparr>"

section \<open>The interpreter locator: properties\<close>

lemma isfile_logged [simp]: "isfile (logged x s) p = isfile s p"
  by (simp add: isfile_def logged_def)

lemma probe_version_cases:
  "probe_version w p s =
     (case run w [p, ''--version''] of
        Inl e \<Rightarrow> (Raise e, logged (Run [p, ''--version'']) s)
      | Inr r \<Rightarrow>
          (if contains ''Python 3.'' (strip (stdout r)) \<and> length (split_dot (strip (stdout r))) \<ge> 2
           then (case py_int (split_dot (strip (stdout r)) ! 1) of
                   Inl e \<Rightarrow> Raise e | Inr minor \<Rightarrow> Next (minor \<ge> 8))
           else Next False, logged (Run [p, ''--version'']) s))"
  by (simp add: probe_version_def seq_def subprocess_run_def pure_def Let_def
           split: sum.splits)

lemma probe_version_files: "files (snd (probe_version w p s)) = files s"
  by (simp add: probe_version_cases logged_def split: sum.splits)

lemma probe_version_usable:
  "p \<noteq> [] \<Longrightarrow> isfile s p \<Longrightarrow> (fst (probe_version w p s) = Next True) = usable w s (Some p)"
  by (auto simp add: probe_version_cases usable_def version_ok_def Let_def split: sum.splits)

lemma probe_version_not_Return: "fst (probe_version w p s) \<noteq> Return"
  by (simp add: probe_version_cases split: sum.splits)

lemma usable_files: "files s' = files s \<Longrightarrow> usable w s' c = usable w s c"
  by (simp add: usable_def isfile_def split: option.splits)

lemma find_loop_find:
  "fst (find_loop w cs s) = Next (case List.find (usable w s) cs of None \<Rightarrow> None | Some c \<Rightarrow> c)
   \<and> files (snd (find_loop w cs s)) = files s"
proof (induction cs arbitrary: s)
  case Nil
  show ?case by simp
next
  case (Cons c cs)
  show ?case
  proof (cases c)
    case None
    then show ?thesis using Cons.IH [of s] by (simp add: usable_def)
  next
    case (Some p)
    show ?thesis
    proof (cases "p \<noteq> [] \<and> isfile s p")
      case False
      then show ?thesis using Cons.IH [of s] Some by (auto simp add: usable_def)
    next
      case True
      obtain f s' where ps: "probe_version w p s = (f, s')" by (cases "probe_version w p s")
      have fs': "files s' = files s" using probe_version_files [of w p s] ps by simp
      have us: "(f = Next True) = usable w s (Some p)"
        using probe_version_usable [of p s w] True ps by simp
      have nr: "f \<noteq> Return" using probe_version_not_Return [of w p s] ps by simp
      have eq: "usable w s' = usable w s" using usable_files [OF fs'] by (rule ext)
      show ?thesis
      proof (cases f)
        case (Next b)
        then show ?thesis using Cons.IH [of s'] ps True Some us fs' eq
          by (cases b) auto
      next
        case Return
        then show ?thesis using nr by simp
      next
        case (Raise e)
        then show ?thesis using Cons.IH [of s'] ps True Some us fs' eq by auto
      qed
    qed
  qed
qed

lemma find_system_python_result:
  "fst (find_system_python w s) = Next (first_usable w s)"
  by (simp add: find_system_python_def first_usable_def find_loop_find)

lemma find_system_python_files:
  "files (snd (find_system_python w s)) = files s"
  by (simp add: find_system_python_def find_loop_find)

lemma first_usable_None:
  "(\<forall>c \<in> set (candidates w). \<not> usable w s c) \<Longrightarrow> first_usable w s = None"
proof -
  assume h: "\<forall>c \<in> set (candidates w). \<not> usable w s c"
  have "List.find (usable w s) (candidates w) = None"
    using h by (simp add: find_None_iff)
  then show ?thesis by (simp add: first_usable_def)
qed

text \<open>
  C7, as amended.  The locator never raises and never returns early: its result is the
  first usable candidate, and the not-found value when no candidate is usable.  A
  candidate whose probe raises (a timeout, an unparsable minor version, any exception)
  or whose output does not name Python 3 with a minor version of at least 8 is skipped;
  the exit status of the probe is not consulted.
\<close>

theorem find_system_python_total_first_usable:
  "fst (find_system_python w s) = Next (first_usable w s)
   \<and> (\<forall>e. fst (find_system_python w s) \<noteq> Raise e)
   \<and> fst (find_system_python w s) \<noteq> Return
   \<and> ((\<forall>c \<in> set (candidates w). \<not> usable w s c)
        \<longrightarrow> fst (find_system_python w s) = Next None)"
  using first_usable_None [of w s] by (simp add: find_system_python_result)

theorem find_system_python_total_first_usable_witness:
  "list_all (\<lambda>c. \<not> usable three_bad_pythons
                     (start_state three_bad_pythons three_bad_pythons_disk (\<lambda>d. False)) c)
     (candidates three_bad_pythons)
   \<and> fst (find_system_python three_bad_pythons
            (start_state three_bad_pythons three_bad_pythons_disk (\<lambda>d. False))) = Next None"
proof -
  let ?w = three_bad_pythons
  let ?s = "start_state three_bad_pythons three_bad_pythons_disk (\<lambda>d. False)"
  have h: "\<forall>c \<in> set (candidates ?w). \<not> usable ?w ?s c"
    by (simp add: candidates_def three_bad_pythons_def bare_world_def usable_def
          start_state_def three_bad_pythons_disk_def isfile_def version_names_def
          path_join_def bsl_def version_ok_def strip_def is_space_def py_int_def
          parse_unsigned_def is_digit_def digit_val_def)
  show ?thesis
    unfolding list_all_iff
    using h find_system_python_total_first_usable [of ?w ?s] by blast
qed

text \<open>
  C7 as stated fails: a candidate whose version query exits with status 1 is returned,
  not skipped, when its output names Python 3.11.
\<close>

theorem find_system_python_nonzero_exit_counterexample:
  "run nonzero_python [''C:/a/python.exe'', ''--version'']
     = Inr \<lparr>returncode = 1, stdout = ''Python 3.11.9'', stderr = []\<rparr>
   \<and> fst (find_system_python nonzero_python
            (start_state nonzero_python [''C:/a/python.exe'' \<mapsto> Opaque []] (\<lambda>d. False)))
     = Next (Some ''C:/a/python.exe'')"
  by (simp add: find_system_python_def candidates_def nonzero_python_def bare_world_def
        start_state_def isfile_def probe_version_cases strip_def is_space_def
        py_int_def parse_unsigned_def is_digit_def digit_val_def)

section \<open>The dependency checker: properties\<close>

lemma is_setup_complete_global:
  "PYTHON_EXE (snd (is_setup_complete w s)) =
     (if isfile s (SETUP_MARKER w) then effective_exe w s else PYTHON_EXE s)"
  by (auto simp add: is_setup_complete_def effective_exe_def marker_exe_def load_saved_exe_def
        subprocess_run_def logged_def isfile_def Let_def
        split: option.splits content.splits jval.splits sum.splits prod.splits flow.splits)

lemma is_setup_complete_result:
  "fst (is_setup_complete w s) =
     (isfile s (SETUP_MARKER w) \<and> isfile s (effective_exe w s) \<and> import_ok w (effective_exe w s))"
  by (auto simp add: is_setup_complete_def effective_exe_def marker_exe_def load_saved_exe_def
        subprocess_run_def logged_def isfile_def Let_def import_ok_def
        split: option.splits content.splits jval.splits sum.splits prod.splits flow.splits)

lemma is_setup_complete_files:
  "files (snd (is_setup_complete w s)) = files s \<and> dirs (snd (is_setup_complete w s)) = dirs s
   \<and> printed (snd (is_setup_complete w s)) = printed s"
  by (auto simp add: is_setup_complete_def load_saved_exe_def
        subprocess_run_def logged_def isfile_def Let_def
        split: option.splits content.splits jval.splits sum.splits prod.splits flow.splits)

text \<open>
  C1, as amended.  The readiness check is a gate of three conditions: it answers true
  exactly when the marker file exists, the interpreter it ends up with exists as a file,
  and the import probe run with that interpreter prints \<^verbatim>\<open>ok\<close> without raising.  The
  interpreter it ends up with is the one the marker names when the marker is a JSON
  object naming an existing file, and the current global otherwise; the global is
  rebound to it.  The importability of the library is probed on every call that gets
  past the two file tests.
\<close>

theorem is_setup_complete_three_conditions:
  "fst (is_setup_complete w s) =
     (isfile s (SETUP_MARKER w) \<and> isfile s (effective_exe w s) \<and> import_ok w (effective_exe w s))
   \<and> PYTHON_EXE (snd (is_setup_complete w s)) =
       (if isfile s (SETUP_MARKER w) then effective_exe w s else PYTHON_EXE s)"
  by (simp add: is_setup_complete_result is_setup_complete_global)

lemmas readiness_eval =
  effective_exe_def marker_exe_def import_ok_def isfile_def start_state_def
  custom_disk_def custom_marker_def bare_world_def silent_def
  SETUP_MARKER_def APP_DIR_def VENV_DIR_def PYTHON_EXE_default_def path_join_def
  bsl_def is_sep_def strip_def is_space_def import_manim_code_def

theorem is_setup_complete_three_conditions_witness:
  "fst (is_setup_complete custom_ready (start_state custom_ready custom_disk (\<lambda>d. False)))
   \<and> PYTHON_EXE (snd (is_setup_complete custom_ready
                       (start_state custom_ready custom_disk (\<lambda>d. False))))
       = ''C:/py/python.exe''"
  using is_setup_complete_three_conditions
          [of custom_ready "start_state custom_ready custom_disk (\<lambda>d. False)"]
  by (simp add: readiness_eval custom_ready_def)

text \<open>
  C1 as stated fails in both directions.  With the marker present and naming an
  interpreter that exists, the check is false when that interpreter cannot import the
  library; with a marker that does not parse, the check is true when the default
  interpreter exists and imports the library.
\<close>

theorem is_setup_complete_two_conditions_counterexample:
  "isfile (start_state bare_world custom_disk (\<lambda>d. False)) (SETUP_MARKER bare_world)
   \<and> marker_exe bare_world (start_state bare_world custom_disk (\<lambda>d. False))
       = Some ''C:/py/python.exe''
   \<and> isfile (start_state bare_world custom_disk (\<lambda>d. False)) ''C:/py/python.exe''
   \<and> \<not> fst (is_setup_complete bare_world (start_state bare_world custom_disk (\<lambda>d. False)))
   \<and> files (start_state venv_ready broken_marker_disk (\<lambda>d. False)) (SETUP_MARKER venv_ready)
       = Some (Opaque ''{'')
   \<and> fst (is_setup_complete venv_ready (start_state venv_ready broken_marker_disk (\<lambda>d. False)))"
  by (simp add: is_setup_complete_result readiness_eval venv_ready_def broken_marker_disk_def)

section \<open>The entry point: properties\<close>

text \<open>
  C10, as amended.  With \<^verbatim>\<open>--cli\<close> and nothing after it the program does nothing but
  print the usage line: the line is printed when standard output can encode it, and
  otherwise \<^verbatim>\<open>print\<close> raises; in both cases nothing else of the state changes.  A first
  argument other than \<^verbatim>\<open>--setup\<close> and \<^verbatim>\<open>--cli\<close> is handed to the headless conversion
  as the SVG path, whatever it looks like; for a path that is no file the conversion
  does nothing but print the file-not-found line, so the readiness check is not
  reached.
\<close>

theorem main_cli_dispatch:
  "main w [prog, ''--cli''] s =
     (if stdout_encodes w Usage then (Next (), s\<lparr>printed := printed s @ [Usage]\<rparr>)
      else (Raise (Exc UnicodeEncodeError ''codec cannot encode character''), s))
   \<and> (arg \<noteq> ''--setup'' \<and> arg \<noteq> ''--cli''
        \<longrightarrow> main w (prog # arg # rest) s = process_svg_cli w arg s)
   \<and> (\<not> isfile s p
        \<longrightarrow> process_svg_cli w p s =
              (if stdout_encodes w (File_not_found p)
               then (Next (), s\<lparr>printed := printed s @ [File_not_found p]\<rparr>)
               else (Raise (Exc UnicodeEncodeError ''codec cannot encode character''), s)))"
  by (simp add: main_def process_svg_cli_def print_line_def)

theorem main_cli_dispatch_witness:
  "main bare_world [''QuickAnimations.py'', ''--cli''] (start_state bare_world Map.empty (\<lambda>d. False))
     = (Next (), (start_state bare_world Map.empty (\<lambda>d. False))\<lparr>printed := [Usage]\<rparr>)
   \<and> main bare_world [''QuickAnimations.py'', ''--fast''] (start_state bare_world Map.empty (\<lambda>d. False))
     = (Next (), (start_state bare_world Map.empty (\<lambda>d. False))
                   \<lparr>printed := [File_not_found ''--fast'']\<rparr>)"
proof -
  let ?s = "start_state bare_world Map.empty (\<lambda>d. False)"
  have a: "''--fast'' \<noteq> ''--setup'' \<and> ''--fast'' \<noteq> ''--cli''" by simp
  have b: "\<not> isfile ?s ''--fast''" by (simp add: isfile_def start_state_def)
  have c: "stdout_encodes bare_world Usage" "stdout_encodes bare_world (File_not_found ''--fast'')"
    by (simp_all add: bare_world_def)
  have d: "printed ?s = []" by (simp add: start_state_def)
  show ?thesis
    using a b c d
      main_cli_dispatch [of bare_world "''QuickAnimations.py''" ?s "''--fast''" "[]" "''--fast''"]
    by simp
qed

text \<open>
  C10 as stated fails: when standard output cannot encode the usage line, nothing is
  printed and an exception leaves \<^verbatim>\<open>main\<close>.
\<close>

theorem main_cli_usage_counterexample:
  "\<not> stdout_encodes ansi_stdout Usage
   \<and> fst (main ansi_stdout [''QuickAnimations.py'', ''--cli'']
            (start_state ansi_stdout Map.empty (\<lambda>d. False)))
       = Raise (Exc UnicodeEncodeError ''codec cannot encode character'')
   \<and> printed (snd (main ansi_stdout [''QuickAnimations.py'', ''--cli'']
                     (start_state ansi_stdout Map.empty (\<lambda>d. False)))) = []"
  by (simp add: main_def print_line_def ansi_stdout_def start_state_def)

section \<open>The install worker: properties\<close>

subsection \<open>Paths of the program\<close>

lemma path_join_plain:
  "a \<noteq> [] \<Longrightarrow> \<not> is_sep (last a) \<Longrightarrow> last a \<noteq> CHR '':'' \<Longrightarrow> path_join a b = a @ bsl @ b"
  by (simp add: path_join_def)

lemma path_join_last:
  "b \<noteq> [] \<Longrightarrow> last (path_join a b) = last b"
  by (simp add: path_join_def bsl_def)

lemma path_join_nonempty [simp]:
  "b \<noteq> [] \<Longrightarrow> path_join a b \<noteq> []"
  by (simp add: path_join_def)

lemma app_join: "path_join (APP_DIR w) b = APP_DIR w @ bsl @ b"
proof -
  have "last (APP_DIR w) = CHR ''s''" by (simp add: APP_DIR_def path_join_last)
  moreover have "APP_DIR w \<noteq> []" by (simp add: APP_DIR_def)
  ultimately show ?thesis by (simp add: path_join_plain is_sep_def)
qed

lemma sub_join:
  "d \<noteq> [] \<Longrightarrow> \<not> is_sep (last d) \<Longrightarrow> last d \<noteq> CHR '':''
   \<Longrightarrow> path_join (a @ d) b = a @ d @ bsl @ b"
  by (simp add: path_join_def)

lemma marker_eq: "SETUP_MARKER w = APP_DIR w @ bsl @ ''setup_complete.json''"
  by (simp add: SETUP_MARKER_def app_join)

lemma venv_eq: "VENV_DIR w = APP_DIR w @ bsl @ ''venv''"
  by (simp add: VENV_DIR_def app_join)

lemma within_app_sub:
  "within (APP_DIR w @ bsl @ d) p \<Longrightarrow> prefix (APP_DIR w @ bsl @ d) p"
  by (auto simp add: within_def prefix_def)

lemma marker_not_within_venv: "\<not> within (VENV_DIR w) (SETUP_MARKER w)"
  by (simp add: within_def venv_eq marker_eq bsl_def)

lemma marker_not_within_embed: "\<not> within (APP_DIR w @ bsl @ ''python_embed'') (SETUP_MARKER w)"
  by (simp add: within_def marker_eq bsl_def)

lemma venv_not_marker [simp]: "VENV_DIR w \<noteq> SETUP_MARKER w"
  by (simp add: venv_eq marker_eq bsl_def)

lemma app_not_marker [simp]: "APP_DIR w \<noteq> SETUP_MARKER w"
  by (simp add: marker_eq bsl_def)

subsection \<open>What the operations leave unchanged\<close>

lemma keeps_seq: "keeps g m \<Longrightarrow> (\<And>x. keeps g (f x)) \<Longrightarrow> keeps g (seq m f)"
proof -
  assume km: "keeps g m" and kf: "\<And>x. keeps g (f x)"
  show ?thesis
    unfolding keeps_def
  proof
    fix s
    obtain r s' where ms: "m s = (r, s')" by (cases "m s")
    have gs': "g s' = g s" using km ms unfolding keeps_def by (metis snd_conv)
    show "g (snd (seq m f s)) = g s"
    proof (cases r)
      case (Next x)
      have "g (snd (f x s')) = g s'" using kf [of x] unfolding keeps_def by simp
      then show ?thesis using Next ms gs' by (simp add: seq_def)
    next
      case Return
      then show ?thesis using ms gs' by (simp add: seq_def)
    next
      case (Raise e)
      then show ?thesis using ms gs' by (simp add: seq_def)
    qed
  qed
qed

lemma keepsD: "keeps g m \<Longrightarrow> m s = (r, s') \<Longrightarrow> g s' = g s"
  unfolding keeps_def by (metis snd_conv)

lemma keeps_effect: "(\<And>s. g (h s) = g s) \<Longrightarrow> keeps g (effect h)"
  by (simp add: keeps_def effect_def)

lemma keeps_pure: "keeps g (pure x)"
  by (simp add: keeps_def pure_def)

lemma keeps_return_now: "keeps g return_now"
  by (simp add: keeps_def return_now_def)

lemma keeps_if: "keeps g a \<Longrightarrow> keeps g b \<Longrightarrow> keeps g (if c then a else b)"
  by simp

lemma keeps_when: "keeps g a \<Longrightarrow> keeps g (\<lambda>s. if c s then a s else (Next (), s))"
  by (simp add: keeps_def)

lemma keeps_choice: "keeps g (\<lambda>s. if c s then (x, s) else (y, s))"
  by (simp add: keeps_def)

lemma keeps_except_OSError: "keeps g m \<Longrightarrow> keeps g (except_OSError_pass m)"
  unfolding keeps_def except_OSError_pass_def
  by (auto split: prod.splits flow.splits dest: keepsD [unfolded keeps_def])

lemma keeps_except_FileNotFoundError: "keeps g m \<Longrightarrow> keeps g (except_FileNotFoundError_pass m)"
  unfolding keeps_def except_FileNotFoundError_pass_def
  by (auto split: prod.splits flow.splits dest: keepsD [unfolded keeps_def])

lemma marker_view_logged [simp]: "marker_view w (logged x s) = marker_view w s"
  by (simp add: marker_view_def logged_def)

lemma marker_view_update_status [simp]: "marker_view w (update_status t c s) = marker_view w s"
  by (simp add: marker_view_def update_status_def split: option.splits)

lemma marker_view_fail [simp]: "marker_view w (fail m k s) = marker_view w s"
  by (simp add: marker_view_def fail_def Let_def split: option.splits)

lemma mv_subprocess_run: "keeps (marker_view w) (subprocess_run w argv)"
  by (simp add: keeps_def subprocess_run_def split: sum.splits)

lemma mv_makedirs: "d \<noteq> SETUP_MARKER w \<Longrightarrow> keeps (marker_view w) (makedirs d)"
  by (simp add: keeps_def makedirs_def) (simp add: marker_view_def logged_def)

lemma mv_write_file: "q \<noteq> SETUP_MARKER w \<Longrightarrow> keeps (marker_view w) (write_file q c)"
  by (simp add: keeps_def write_file_def) (simp add: marker_view_def logged_def)

lemma mv_os_remove: "q \<noteq> SETUP_MARKER w \<Longrightarrow> keeps (marker_view w) (os_remove w q)"
  by (simp add: keeps_def os_remove_def) (simp add: marker_view_def logged_def)

lemma mv_rmtree_ignore_errors:
  "\<not> within d (SETUP_MARKER w) \<Longrightarrow> keeps (marker_view w) (rmtree_ignore_errors w d)"
  by (simp add: keeps_def rmtree_ignore_errors_def) (simp add: marker_view_def logged_def)

lemma mv_rmtree: "\<not> within d (SETUP_MARKER w) \<Longrightarrow> keeps (marker_view w) (rmtree w d)"
  using mv_rmtree_ignore_errors [of d w] by (simp add: keeps_def rmtree_def)

lemma mv_download_file:
  "dest \<noteq> SETUP_MARKER w \<Longrightarrow> keeps (marker_view w) (download_file w url dest)"
  by (simp add: keeps_def download_file_def split: fetched.splits option.splits)
     (simp add: marker_view_def logged_def)

lemma mv_extractall:
  "dest \<noteq> SETUP_MARKER w \<Longrightarrow> keeps (marker_view w) (extractall w z dest)"
  by (simp add: keeps_def extractall_def split: option.splits)
     (simp add: marker_view_def logged_def)

lemma mv_subprocess_run_leaving:
  "target \<noteq> SETUP_MARKER w \<Longrightarrow> keeps (marker_view w) (subprocess_run_leaving w argv target)"
  by (simp add: keeps_def subprocess_run_leaving_def subprocess_run_def Let_def
        split: sum.splits option.splits)
     (simp add: marker_view_def)

lemmas keeps_intros =
  keeps_seq keeps_effect keeps_pure keeps_return_now keeps_if keeps_when keeps_choice
  keeps_except_OSError keeps_except_FileNotFoundError

lemmas mv_intros =
  mv_subprocess_run mv_makedirs mv_write_file mv_os_remove mv_rmtree_ignore_errors mv_rmtree
  mv_download_file mv_extractall mv_subprocess_run_leaving

lemma mv_download_python_body: "keeps (marker_view w) (download_python_body w)"
  unfolding download_python_body_def Let_def app_join
  apply (intro keeps_intros mv_intros)
  apply (simp_all add: marker_eq sub_join is_sep_def within_def bsl_def)
  done

lemma fs_blind_panel: "fs_blind panel"
  by (simp add: fs_blind_def panel_def)

lemma fs_blind_logged: "fs_blind g \<Longrightarrow> g (logged x s) = g s"
  by (simp add: fs_blind_def logged_def)

lemma fb_subprocess_run: "fs_blind g \<Longrightarrow> keeps g (subprocess_run w argv)"
  by (simp add: keeps_def subprocess_run_def fs_blind_logged split: sum.splits)

lemma fb_makedirs: "fs_blind g \<Longrightarrow> keeps g (makedirs d)"
  by (simp add: keeps_def makedirs_def fs_blind_logged) (simp add: fs_blind_def)

lemma fb_write_file: "fs_blind g \<Longrightarrow> keeps g (write_file q c)"
  by (simp add: keeps_def write_file_def fs_blind_logged) (simp add: fs_blind_def)

lemma fb_os_remove: "fs_blind g \<Longrightarrow> keeps g (os_remove w q)"
  by (simp add: keeps_def os_remove_def fs_blind_logged) (simp add: fs_blind_def)

lemma fb_rmtree_ignore_errors: "fs_blind g \<Longrightarrow> keeps g (rmtree_ignore_errors w d)"
  by (simp add: keeps_def rmtree_ignore_errors_def fs_blind_logged) (simp add: fs_blind_def)

lemma fb_rmtree: "fs_blind g \<Longrightarrow> keeps g (rmtree w d)"
  using fb_rmtree_ignore_errors [of g w d]
  by (simp add: keeps_def rmtree_def fs_blind_logged)

lemma fb_download_file: "fs_blind g \<Longrightarrow> keeps g (download_file w url dest)"
  by (simp add: keeps_def download_file_def fs_blind_logged split: fetched.splits option.splits)
     (simp add: fs_blind_def)

lemma fb_extractall: "fs_blind g \<Longrightarrow> keeps g (extractall w z dest)"
  by (simp add: keeps_def extractall_def fs_blind_logged split: option.splits)
     (simp add: fs_blind_def)

lemma fb_subprocess_run_leaving: "fs_blind g \<Longrightarrow> keeps g (subprocess_run_leaving w argv target)"
  by (simp add: keeps_def subprocess_run_leaving_def subprocess_run_def Let_def fs_blind_logged
        split: sum.splits option.splits)
     (simp add: fs_blind_def)

lemmas fb_intros =
  fb_subprocess_run fb_makedirs fb_write_file fb_os_remove fb_rmtree_ignore_errors fb_rmtree
  fb_download_file fb_extractall fb_subprocess_run_leaving

lemma panel_update_status_None [simp]: "panel (update_status t None s) = panel s"
  by (simp add: panel_def update_status_def)

lemma panel_download_python_body: "keeps panel (download_python_body w)"
  unfolding download_python_body_def Let_def
  by (intro keeps_intros fb_intros fs_blind_panel) simp_all

lemma never_returns_seq:
  "never_returns m \<Longrightarrow> (\<And>x. never_returns (f x)) \<Longrightarrow> never_returns (seq m f)"
  unfolding never_returns_def seq_def
  by (auto split: prod.splits flow.splits) (metis fst_conv)+

lemma nr_effect: "never_returns (effect h)" by (simp add: never_returns_def effect_def)

lemma nr_pure: "never_returns (pure x)" by (simp add: never_returns_def pure_def)

lemma nr_when: "never_returns a \<Longrightarrow> never_returns (\<lambda>s. if c s then a s else (Next (), s))"
  by (simp add: never_returns_def)

lemma nr_choice: "never_returns (\<lambda>s. if c s then (Next x, s) else (Next y, s))"
  by (simp add: never_returns_def)

lemma nr_except_OSError: "never_returns m \<Longrightarrow> never_returns (except_OSError_pass m)"
  unfolding never_returns_def except_OSError_pass_def
  by (auto split: prod.splits flow.splits) (metis fst_conv)+

lemma nr_subprocess_run: "never_returns (subprocess_run w argv)"
  by (simp add: never_returns_def subprocess_run_def split: sum.splits)

lemma nr_makedirs: "never_returns (makedirs d)"
  by (simp add: never_returns_def makedirs_def)

lemma nr_os_remove: "never_returns (os_remove w q)"
  by (simp add: never_returns_def os_remove_def)

lemma nr_rmtree_ignore_errors: "never_returns (rmtree_ignore_errors w d)"
  by (simp add: never_returns_def rmtree_ignore_errors_def)

lemma nr_rmtree: "never_returns (rmtree w d)"
  by (simp add: never_returns_def rmtree_def rmtree_ignore_errors_def)

lemma nr_download_file: "never_returns (download_file w url dest)"
  by (simp add: never_returns_def download_file_def split: fetched.splits)

lemma nr_extractall: "never_returns (extractall w z dest)"
  by (simp add: never_returns_def extractall_def split: option.splits)

lemma nr_subprocess_run_leaving: "never_returns (subprocess_run_leaving w argv target)"
  by (simp add: never_returns_def subprocess_run_leaving_def subprocess_run_def Let_def
        split: sum.splits)

lemmas nr_intros =
  never_returns_seq nr_effect nr_pure nr_when nr_choice nr_except_OSError nr_subprocess_run
  nr_makedirs nr_os_remove nr_rmtree_ignore_errors nr_rmtree nr_download_file nr_extractall
  nr_subprocess_run_leaving

lemma nr_download_python_body: "never_returns (download_python_body w)"
  unfolding download_python_body_def Let_def
  by (intro nr_intros)

lemma download_python_Next: "\<exists>r. fst (download_python w s) = Next r"
proof -
  have "fst (download_python_body w s) \<noteq> Return"
    using nr_download_python_body [of w] by (simp add: never_returns_def)
  then show ?thesis
    by (cases "download_python_body w s"; cases "fst (download_python_body w s)")
       (auto simp add: download_python_def)
qed

lemma keeps_download_python:
  "keeps g (download_python_body w) \<Longrightarrow> keeps g (download_python w)"
  unfolding keeps_def download_python_def
  by (auto split: prod.splits flow.splits dest: keepsD [unfolded keeps_def])

lemma find_loop_keeps: "(\<And>x s. g (logged x s) = g s) \<Longrightarrow> g (snd (find_loop w cs s)) = g s"
proof (induction cs arbitrary: s)
  case Nil
  show ?case by simp
next
  case (Cons c cs)
  have pv: "\<And>p. g (snd (probe_version w p s)) = g s"
    using Cons.prems by (simp add: probe_version_cases split: sum.splits)
  show ?case
  proof (cases c)
    case None
    then show ?thesis using Cons by simp
  next
    case (Some p)
    obtain f s' where ps: "probe_version w p s = (f, s')" by (cases "probe_version w p s")
    have gs': "g s' = g s" using pv [of p] ps by simp
    have ih: "g (snd (find_loop w cs s')) = g s'" using Cons by simp
    show ?thesis
      using Some ps gs' ih Cons.IH [OF Cons.prems, of s]
      by (cases f) (auto split: bool.splits)
  qed
qed

lemma keeps_find_system_python:
  "(\<And>x s. g (logged x s) = g s) \<Longrightarrow> keeps g (find_system_python w)"
  by (simp add: keeps_def find_system_python_def find_loop_keeps)

lemma marks_create_venv: "marks_step w Venv (create_venv w py)"
  unfolding marks_step_def
  by (auto simp add: create_venv_def seq_def effect_def update_status_def fail_def
        subprocess_run_def rmtree_ignore_errors_def logged_def return_now_def marker_view_def
        marker_not_within_venv Let_def
        split: sum.splits)

lemma marks_install_manim: "marks_step w Manim (install_manim w)"
  unfolding marks_step_def
  by (auto simp add: install_manim_def seq_def effect_def update_status_def fail_def
        subprocess_run_def logged_def return_now_def marker_view_def Let_def
        split: sum.splits)

lemma marks_check_ffmpeg: "marks_step w Ffmpeg (check_ffmpeg w)"
  unfolding marks_step_def
  by (auto simp add: check_ffmpeg_def probe_ffmpeg_def seq_def effect_def pure_def update_status_def
        subprocess_run_def logged_def marker_view_def Let_def
        split: sum.splits)

lemma marks_ensure_pip: "marks_step w Pip (ensure_pip w)"
  unfolding marks_step_def
  by (auto simp add: ensure_pip_def seq_def effect_def pure_def update_status_def fail_def
        subprocess_run_def download_file_def os_remove_def except_OSError_pass_def
        logged_def return_now_def marker_view_def Let_def app_join marker_eq bsl_def
        split: sum.splits fetched.splits option.splits)

lemma marker_view_blind [simp]: "marker_view w (s\<lparr>oplog := l\<rparr>) = marker_view w s"
  by (simp add: marker_view_def)

lemma acquire_python_facts:
  "marks_step w Python (acquire_python w)"
  unfolding marks_step_def
proof
  fix s
  let ?s0 = "update_status Msg_searching_python (Some (Python, Active)) s"
  obtain sp s1 where fsp: "find_system_python w ?s0 = (Next sp, s1)"
    using find_system_python_result [of w ?s0] by (cases "find_system_python w ?s0") auto
  have k1: "marker_view w s1 = marker_view w ?s0" "panel s1 = panel ?s0"
    using keepsD [OF keeps_find_system_python fsp, of "marker_view w"]
          keepsD [OF keeps_find_system_python fsp, of panel]
    by (simp_all add: fs_blind_logged [OF fs_blind_panel])
  let ?s2 = "update_status Msg_downloading_python (Some (Python, Active)) s1"
  obtain r s3 where dp: "download_python w ?s2 = (Next r, s3)"
    using download_python_Next [of w ?s2] by (cases "download_python w ?s2") auto
  have k3: "marker_view w s3 = marker_view w ?s2" "panel s3 = panel ?s2"
    using keepsD [OF keeps_download_python [OF mv_download_python_body] dp]
          keepsD [OF keeps_download_python [OF panel_download_python_body] dp]
    by simp_all
  show "marker_view w (snd (acquire_python w s)) = marker_view w s
        \<and> checks (snd (acquire_python w s)) = (checks s)(Python := mark (fst (acquire_python w s)))
        \<and> installing (snd (acquire_python w s)) = (installing s \<and> fst (acquire_python w s) \<noteq> Return)
        \<and> screen (snd (acquire_python w s)) = screen s"
    using fsp dp k1 k3
    by (auto simp add: acquire_python_def seq_def effect_def pure_def return_now_def
          update_status_def fail_def marker_view_def panel_def Let_def)
qed

lemma seq_assoc: "seq (seq m f) g = seq m (\<lambda>x. seq (f x) g)"
  by (rule ext) (simp add: seq_def split: prod.splits flow.splits)

lemma install_body_prefix:
  "install_body w = seq (upto_ffmpeg w) (\<lambda>_. seq (write_marker w) (\<lambda>_. effect on_install_complete))"
  by (simp add: install_body_def upto_ffmpeg_def upto_manim_def upto_pip_def upto_venv_def
        upto_python_def seq_assoc)

lemma step_no_inj: "step_no j = step_no k \<Longrightarrow> j = k"
  by (cases j; cases k) simp_all

lemma step_no_zero: "(step_no j = 0) = (j = Python)"
  by (cases j) simp_all

lemma summary_python: "summary w Python s (upto_python w s)"
proof -
  obtain f0 s0 where md: "makedirs (APP_DIR w) s = (f0, s0)" by (cases "makedirs (APP_DIR w) s")
  have k0: "marker_view w s0 = marker_view w s" "panel s0 = panel s"
    using keepsD [OF mv_makedirs md, of w] keepsD [OF fb_makedirs [OF fs_blind_panel] md]
    by simp_all
  have f0: "f0 \<noteq> Return" using md by (auto simp add: makedirs_def split: if_splits)
  obtain f1 s1 where ap: "acquire_python w s0 = (f1, s1)" by (cases "acquire_python w s0")
  have m1: "marker_view w s1 = marker_view w s0" "checks s1 = (checks s0)(Python := mark f1)"
    "installing s1 = (installing s0 \<and> f1 \<noteq> Return)" "screen s1 = screen s0"
    using acquire_python_facts [of w] ap unfolding marks_step_def
    by (metis fst_conv snd_conv)+
  show ?thesis
  proof (cases f0)
    case (Next u)
    show ?thesis
    proof (cases f1)
      case (Next py)
      then show ?thesis using \<open>f0 = Next u\<close> md ap k0 m1
        by (auto simp add: summary_def upto_python_def seq_def panel_def fun_eq_iff step_no_zero)
    next
      case Return
      then show ?thesis using \<open>f0 = Next u\<close> md ap k0 m1
        by (auto simp add: summary_def upto_python_def seq_def panel_def stopped_at_def
              intro!: exI [of _ Python])
    next
      case (Raise e)
      then show ?thesis using \<open>f0 = Next u\<close> md ap k0 m1
        by (auto simp add: summary_def upto_python_def seq_def panel_def stopped_at_def
              intro!: exI [of _ Python])
    qed
  next
    case Return
    then show ?thesis using f0 by simp
  next
    case (Raise e)
    then show ?thesis using md k0
      by (simp add: summary_def upto_python_def seq_def panel_def)
  qed
qed

lemma summary_extend:
  assumes sm: "summary w k s (m s)"
    and st: "\<And>x. marks_step w k' (f x)"
    and no: "step_no k' = Suc (step_no k)"
    and nf: "k' \<noteq> Ffmpeg \<or> (\<forall>x s. fst (f x s) \<noteq> Return)"
  shows "summary w k' s (seq m f s)"
proof -
  obtain fm s1 where ms: "m s = (fm, s1)" by (cases "m s")
  show ?thesis
  proof (cases fm)
    case (Next x)
    obtain ff s2 where fs: "f x s1 = (ff, s2)" by (cases "f x s1")
    have m2: "marker_view w s2 = marker_view w s1" "checks s2 = (checks s1)(k' := mark ff)"
      "installing s2 = (installing s1 \<and> ff \<noteq> Return)" "screen s2 = screen s1"
      using st [of x] fs unfolding marks_step_def by (metis fst_conv snd_conv)+
    have s1: "marker_view w s1 = marker_view w s" "screen s1 = screen s"
      "installing s1 = installing s"
      "checks s1 = (\<lambda>j. if step_no j \<le> step_no k then Done else checks s j)"
      using sm ms Next by (simp_all add: summary_def)
    have le: "\<And>j. (step_no j \<le> step_no k') = (step_no j \<le> step_no k \<or> j = k')"
      using no step_no_inj by (metis le_Suc_eq)
    have lt: "\<And>j. (step_no j < step_no k') = (step_no j \<le> step_no k)"
      by (simp add: no less_Suc_eq_le)
    have seqv: "seq m f s = (ff, s2)" using ms Next fs by (simp add: seq_def)
    show ?thesis
    proof (cases ff)
      case (Next y)
      then show ?thesis using seqv m2 s1 le by (auto simp add: summary_def)
    next
      case Return
      have "k' \<noteq> Ffmpeg" using nf Return fs by (metis fst_conv)
      moreover have "stopped_at k' Error (checks s) (checks s2)"
        using m2 s1 lt Return by (auto simp add: stopped_at_def)
      ultimately show ?thesis using seqv m2 s1 Return
        by (auto simp add: summary_def intro!: exI [of _ k'])
    next
      case (Raise e)
      have "stopped_at k' Active (checks s) (checks s2)"
        using m2 s1 lt Raise by (auto simp add: stopped_at_def)
      then show ?thesis using seqv m2 s1 Raise
        by (auto simp add: summary_def intro!: exI [of _ k'])
    qed
  next
    case Return
    obtain k2 where k2: "step_no k2 \<le> step_no k" "k2 \<noteq> Ffmpeg"
      "stopped_at k2 Error (checks s) (checks s1)"
      using sm ms Return by (auto simp add: summary_def)
    have "step_no k2 \<le> step_no k'" using k2 no by simp
    then show ?thesis using sm ms Return k2
      by (auto simp add: summary_def seq_def simp del: step_no.simps intro!: exI [of _ k2])
  next
    case (Raise e)
    show ?thesis
    proof (cases "checks s1 = checks s")
      case True
      then show ?thesis using sm ms Raise by (auto simp add: summary_def seq_def)
    next
      case False
      then obtain k2 where k2: "step_no k2 \<le> step_no k"
        "stopped_at k2 Active (checks s) (checks s1)"
        using sm ms Raise by (auto simp add: summary_def)
      have "step_no k2 \<le> step_no k'" using k2 no by simp
      then show ?thesis using sm ms Raise k2
        by (auto simp add: summary_def seq_def simp del: step_no.simps intro!: exI [of _ k2])
    qed
  qed
qed

lemma check_ffmpeg_no_Return: "fst (check_ffmpeg w s) \<noteq> Return"
  by (auto simp add: check_ffmpeg_def probe_ffmpeg_def seq_def effect_def pure_def
        subprocess_run_def split: sum.splits)

lemma summary_venv: "summary w Venv s (upto_venv w s)"
  unfolding upto_venv_def
  by (rule summary_extend [OF summary_python]) (simp_all add: marks_create_venv)

lemma summary_pip: "summary w Pip s (upto_pip w s)"
  unfolding upto_pip_def
  by (rule summary_extend [OF summary_venv]) (simp_all add: marks_ensure_pip)

lemma summary_manim: "summary w Manim s (upto_manim w s)"
  unfolding upto_manim_def
  by (rule summary_extend [OF summary_pip]) (simp_all add: marks_install_manim)

lemma summary_ffmpeg: "summary w Ffmpeg s (upto_ffmpeg w s)"
  unfolding upto_ffmpeg_def
  by (rule summary_extend [OF summary_manim])
     (simp_all add: marks_check_ffmpeg check_ffmpeg_no_Return)

lemma step_no_le: "step_no j \<le> 4"
  by (cases j) simp_all

lemma install_body_after_ffmpeg:
  "upto_ffmpeg w s = (f, s5) \<Longrightarrow>
   install_body w s =
     (case f of
        Next u \<Rightarrow>
          if isdir s5 (SETUP_MARKER w)
          then (Raise (Exc PermissionError (SETUP_MARKER w)), logged (Write (SETUP_MARKER w)) s5)
          else (Next (),
                on_install_complete
                  (logged (Write (SETUP_MARKER w))
                     (s5\<lparr>files := (files s5)(SETUP_MARKER w \<mapsto> install_record w s5)\<rparr>)))
      | Return \<Rightarrow> (Return, s5)
      | Raise e \<Rightarrow> (Raise e, s5))"
  by (simp add: install_body_prefix seq_def write_marker_def write_file_def effect_def
        split: flow.splits)

lemma install_worker_completes:
  assumes c: "fst (install_body w s) = Next ()"
  shows "files (install_worker w s) (SETUP_MARKER w) = Some (install_record w s)
         \<and> checks (install_worker w s) = (\<lambda>j. Done)
         \<and> screen (install_worker w s) = Main_app
         \<and> PYTHON_EXE (install_worker w s) = PYTHON_EXE s
         \<and> fst (upto_ffmpeg w s) = Next ()
         \<and> \<not> isdir s (SETUP_MARKER w)"
proof -
  obtain f s5 where u: "upto_ffmpeg w s = (f, s5)" by (cases "upto_ffmpeg w s")
  have sm: "summary w Ffmpeg s (f, s5)" using summary_ffmpeg [of w s] u by simp
  have b: "install_body w s = (case f of
        Next u \<Rightarrow>
          if isdir s5 (SETUP_MARKER w)
          then (Raise (Exc PermissionError (SETUP_MARKER w)), logged (Write (SETUP_MARKER w)) s5)
          else (Next (),
                on_install_complete
                  (logged (Write (SETUP_MARKER w))
                     (s5\<lparr>files := (files s5)(SETUP_MARKER w \<mapsto> install_record w s5)\<rparr>)))
      | Return \<Rightarrow> (Return, s5)
      | Raise e \<Rightarrow> (Raise e, s5))"
    by (rule install_body_after_ffmpeg [OF u])
  have fn: "f = Next ()" using c b by (cases f) (auto split: if_splits)
  have nd: "\<not> isdir s5 (SETUP_MARKER w)" using c b fn by (auto split: if_splits)
  have v: "dirs s5 (SETUP_MARKER w) = dirs s (SETUP_MARKER w)" "PYTHON_EXE s5 = PYTHON_EXE s"
    "checks s5 = (\<lambda>j. Done)"
    using sm fn by (simp_all add: summary_def marker_view_def step_no_le)
  show ?thesis
    using b fn nd v u
    by (simp add: install_worker_def on_install_complete_def logged_def install_record_def
          isdir_def)
qed

lemma install_worker_fails:
  assumes c: "fst (install_body w s) \<noteq> Next ()"
  shows "files (install_worker w s) (SETUP_MARKER w) = files s (SETUP_MARKER w)
         \<and> \<not> installing (install_worker w s)
         \<and> screen (install_worker w s) = screen s
         \<and> PYTHON_EXE (install_worker w s) = PYTHON_EXE s
         \<and> (fst (install_body w s) = Return
              \<longrightarrow> (\<exists>k. k \<noteq> Ffmpeg \<and> stopped_at k Error (checks s) (checks (install_worker w s))))
         \<and> ((\<exists>e. fst (install_body w s) = Raise e)
              \<longrightarrow> (checks (install_worker w s) = checks s
                   \<or> (\<exists>k. stopped_at k Active (checks s) (checks (install_worker w s)))
                   \<or> checks (install_worker w s) = (\<lambda>j. Done)))"
proof -
  obtain f s5 where u: "upto_ffmpeg w s = (f, s5)" by (cases "upto_ffmpeg w s")
  have sm: "summary w Ffmpeg s (f, s5)" using summary_ffmpeg [of w s] u by simp
  note b = install_body_after_ffmpeg [OF u]
  have mv: "files s5 (SETUP_MARKER w) = files s (SETUP_MARKER w)" "PYTHON_EXE s5 = PYTHON_EXE s"
    "screen s5 = screen s"
    using sm by (simp_all add: summary_def marker_view_def)
  show ?thesis
  proof (cases f)
    case (Next u)
    then have d: "isdir s5 (SETUP_MARKER w)" using c b by (auto split: if_splits)
    have "checks s5 = (\<lambda>j. Done)" using sm Next by (simp add: summary_def step_no_le)
    then show ?thesis using b Next d mv
      by (simp add: install_worker_def fail_def logged_def)
  next
    case Return
    then show ?thesis using b sm mv
      by (auto simp add: install_worker_def summary_def)
  next
    case (Raise e)
    then show ?thesis using b sm mv
      by (auto simp add: install_worker_def summary_def fail_def)
  qed
qed

lemma check_ffmpeg_tolerated:
  "ffmpeg_step_tolerated w \<Longrightarrow> fst (check_ffmpeg w s) = Next ()"
  by (auto simp add: ffmpeg_step_tolerated_def fallback_completes_def check_ffmpeg_def
        probe_ffmpeg_def seq_def effect_def pure_def subprocess_run_def
        split: sum.splits)

lemma install_worker_past_manim:
  assumes r: "fst (upto_manim w s) = Next ()"
    and t: "ffmpeg_step_tolerated w"
    and d: "\<not> isdir s (SETUP_MARKER w)"
  shows "fst (install_body w s) = Next ()"
proof -
  obtain s4 where u4: "upto_manim w s = (Next (), s4)" using r by (cases "upto_manim w s") auto
  obtain f s5 where u: "upto_ffmpeg w s = (f, s5)" by (cases "upto_ffmpeg w s")
  have "check_ffmpeg w s4 = (f, s5)" using u u4 by (simp add: upto_ffmpeg_def seq_def)
  then have fn: "f = Next ()" using check_ffmpeg_tolerated [OF t, of s4] by simp
  have sm: "summary w Ffmpeg s (f, s5)" using summary_ffmpeg [of w s] u by simp
  have "dirs s5 (SETUP_MARKER w) = dirs s (SETUP_MARKER w)"
    using sm by (simp add: summary_def marker_view_def)
  then show ?thesis using install_body_after_ffmpeg [OF u] fn d by (simp add: isdir_def)
qed

subsection \<open>Evaluating the worker in a concrete world\<close>

lemmas worker_eval =
  install_body_def install_worker_def upto_manim_def upto_pip_def upto_venv_def upto_python_def
  seq_def effect_def pure_def return_now_def
  makedirs_def acquire_python_def create_venv_def ensure_pip_def install_manim_def
  check_ffmpeg_def probe_ffmpeg_def write_marker_def write_file_def install_record_def
  subprocess_run_def rmtree_ignore_errors_def update_status_def fail_def
  on_install_complete_def logged_def isfile_def isdir_def
  find_system_python_def candidates_def version_names_def probe_version_def
  truthy_def path_of_def venv_command_def venv_python_def
  APP_DIR_def VENV_DIR_def SETUP_MARKER_def path_join_def bsl_def is_sep_def
  strip_def is_space_def py_int_def parse_unsigned_def is_digit_def digit_val_def
  bare_world_def silent_def start_state_def python_state_def python_on_path_def
  python_disk_def Let_def

subsection \<open>Runs that do not complete\<close>




subsection \<open>The encoder check\<close>

text \<open>
  C3, as amended.  In every bootstrap run that reaches the encoder check, no outcome in
  which the commands of the step return, with whatever exit status, and no missing
  executable of a probe aborts provisioning: the step is marked done, the marker is
  written (its path not being a directory) and the run completes.
\<close>

theorem encoder_check_tolerated_outcomes:
  "fst (upto_manim w s) = Next () \<and> ffmpeg_step_tolerated w \<and> \<not> isdir s (SETUP_MARKER w) \<Longrightarrow>
     fst (install_body w s) = Next ()
     \<and> checks (install_worker w s) Ffmpeg = Done
     \<and> files (install_worker w s) (SETUP_MARKER w) = Some (install_record w s)
     \<and> screen (install_worker w s) = Main_app"
  using install_worker_past_manim [of w s] install_worker_completes [of w s] by simp

theorem encoder_check_tolerated_outcomes_witness:
  "fst (upto_manim no_ffmpeg (python_state no_ffmpeg)) = Next ()
   \<and> ffmpeg_step_tolerated no_ffmpeg
   \<and> run no_ffmpeg [''ffmpeg'', ''-version''] = Inl (Exc FileNotFoundError ''[WinError 2]'')
   \<and> fst (install_body no_ffmpeg (python_state no_ffmpeg)) = Next ()
   \<and> checks (install_worker no_ffmpeg (python_state no_ffmpeg)) Ffmpeg = Done
   \<and> files (install_worker no_ffmpeg (python_state no_ffmpeg)) (SETUP_MARKER no_ffmpeg)
       = Some (install_record no_ffmpeg (python_state no_ffmpeg))"
proof -
  let ?w = no_ffmpeg
  let ?s = "python_state no_ffmpeg"
  have a: "fst (upto_manim ?w ?s) = Next ()"
    by (simp add: worker_eval no_ffmpeg_def)
  have b: "ffmpeg_step_tolerated ?w"
    by (simp add: ffmpeg_step_tolerated_def fallback_completes_def no_ffmpeg_def
          python_on_path_def bare_world_def silent_def ffmpeg_probe_code_def venv_python_def
          VENV_DIR_def APP_DIR_def path_join_def bsl_def is_sep_def)
  have c: "\<not> isdir ?s (SETUP_MARKER ?w)"
    by (simp add: isdir_def python_state_def start_state_def)
  have d: "run ?w [''ffmpeg'', ''-version''] = Inl (Exc FileNotFoundError ''[WinError 2]'')"
    by (simp add: no_ffmpeg_def)
  show ?thesis
    using encoder_check_tolerated_outcomes [of ?w ?s] a b c d by simp
qed

text \<open>
  C3 as stated fails: when the \<^verbatim>\<open>ffmpeg -version\<close> probe runs into its timeout, the
  exception is not a \<open>FileNotFoundError\<close>, leaves the step active, reaches the worker's
  handler and ends the run without a marker.
\<close>

theorem encoder_check_timeout_counterexample:
  "fst (upto_manim ffmpeg_times_out (python_state ffmpeg_times_out)) = Next ()
   \<and> fst (install_body ffmpeg_times_out (python_state ffmpeg_times_out))
       = Raise (Exc TimeoutExpired ''timed out after 10 seconds'')
   \<and> checks (install_worker ffmpeg_times_out (python_state ffmpeg_times_out)) Ffmpeg = Active
   \<and> files (install_worker ffmpeg_times_out (python_state ffmpeg_times_out))
        (SETUP_MARKER ffmpeg_times_out) = None
   \<and> status_var (install_worker ffmpeg_times_out (python_state ffmpeg_times_out))
       = Msg_failed (Unexpected ''timed out after 10 seconds'')"
  by (simp add: worker_eval ffmpeg_times_out_def ffmpeg_probe_code_def)

section \<open>Skipping the setup: properties\<close>

lemmas skip_unfold =
  skip_setup_def validate_def validate_body_def seq_def effect_def subprocess_run_def
  makedirs_def write_file_def on_skip_success_def on_skip_fail_def logged_def
  import_ok_def isfile_def isdir_def

lemma skip_setup_failure:
  "\<not> import_ok w chosen \<Longrightarrow>
     files (skip_setup w chosen s) = files s
     \<and> dirs (skip_setup w chosen s) = dirs s
     \<and> PYTHON_EXE (skip_setup w chosen s) = PYTHON_EXE s"
  by (auto simp add: skip_unfold split: sum.splits)

lemma skip_setup_report:
  "\<not> installing s \<Longrightarrow> chosen \<noteq> [] \<Longrightarrow> \<not> import_ok w chosen \<Longrightarrow>
   run w [chosen, ''-c'', import_manim_code] = Inr r \<Longrightarrow>
     status_var (skip_setup w chosen s) =
       Msg_skip_failed (if stderr r \<noteq> [] then take 200 (stderr r) else ''manim import edilemedi'')"
  by (auto simp add: skip_unfold split: sum.splits)

lemma skip_setup_success:
  "\<not> installing s \<Longrightarrow> chosen \<noteq> [] \<Longrightarrow> import_ok w chosen \<Longrightarrow>
   \<not> isfile s (APP_DIR w) \<Longrightarrow> \<not> isdir s (SETUP_MARKER w) \<Longrightarrow>
     files (skip_setup w chosen s) (SETUP_MARKER w) = Some (skip_record chosen)
     \<and> PYTHON_EXE (skip_setup w chosen s) = chosen
     \<and> screen (skip_setup w chosen s) = Main_app"
  by (auto simp add: skip_unfold app_not_marker [THEN not_sym] split: sum.splits)

lemma skip_setup_marker_either:
  "files (skip_setup w chosen s) (SETUP_MARKER w) = files s (SETUP_MARKER w)
   \<or> files (skip_setup w chosen s) (SETUP_MARKER w) = Some (skip_record chosen)"
  by (auto simp add: skip_unfold split: sum.splits)

text \<open>
  C5, as amended.  In every skip-validation run whose interpreter does not answer
  \<^verbatim>\<open>ok\<close> to the import probe, or whose probe raises, no file is written: a marker on
  disk keeps its content and none is created.  When the probe returned, the text
  reported on the status line is the first 200 characters of its standard error, or a
  fixed text when it wrote none.
\<close>

theorem skip_setup_failure_leaves_marker:
  "\<not> import_ok w chosen \<Longrightarrow>
     files (skip_setup w chosen s) (SETUP_MARKER w) = files s (SETUP_MARKER w)
     \<and> files (skip_setup w chosen s) = files s
     \<and> (\<not> installing s \<and> chosen \<noteq> [] \<and> run w [chosen, ''-c'', import_manim_code] = Inr r
          \<longrightarrow> status_var (skip_setup w chosen s) =
                Msg_skip_failed (if stderr r \<noteq> [] then take 200 (stderr r)
                                 else ''manim import edilemedi''))"
  using skip_setup_failure [of w chosen s] skip_setup_report [of s chosen w r] by simp

lemmas skip_eval =
  skip_unfold bare_world_def silent_def start_state_def custom_disk_def custom_marker_def
  strip_def is_space_def import_manim_code_def

theorem skip_setup_failure_leaves_marker_witness:
  "\<not> import_ok import_fails_verbosely ''C:/py/python.exe''
   \<and> files (skip_setup import_fails_verbosely ''C:/py/python.exe''
              (start_state import_fails_verbosely custom_disk (\<lambda>d. False)))
        (SETUP_MARKER import_fails_verbosely) = Some custom_marker
   \<and> status_var (skip_setup import_fails_verbosely ''C:/py/python.exe''
                   (start_state import_fails_verbosely custom_disk (\<lambda>d. False)))
       = Msg_skip_failed (replicate 200 (CHR ''a''))"
proof -
  let ?w = import_fails_verbosely
  let ?s = "start_state import_fails_verbosely custom_disk (\<lambda>d. False)"
  let ?r = "\<lparr>returncode = 1, stdout = [], stderr = replicate 200 (CHR ''a'') @ ''b''\<rparr>"
  have a: "\<not> import_ok ?w ''C:/py/python.exe''"
    by (simp add: import_ok_def import_fails_verbosely_def strip_def)
  have b: "\<not> installing ?s" by (simp add: start_state_def)
  have c: "run ?w [''C:/py/python.exe'', ''-c'', import_manim_code] = Inr ?r"
    by (simp add: import_fails_verbosely_def)
  have d: "files ?s (SETUP_MARKER ?w) = Some custom_marker"
    by (simp add: start_state_def custom_disk_def SETUP_MARKER_def APP_DIR_def
          import_fails_verbosely_def bare_world_def path_join_def bsl_def is_sep_def)
  show ?thesis
    using skip_setup_failure_leaves_marker [of ?w "''C:/py/python.exe''" ?s ?r] a b c d
    by simp
qed

text \<open>
  C5 as stated fails.  The reported text is the head of the standard error, not its
  tail: of 201 characters the last one is cut off.  And when the probe raises and the
  posted callback runs after the \<^verbatim>\<open>except\<close> block has ended, the exception's text is
  not reported at all: the status line still shows that the check is running.
\<close>

theorem skip_setup_report_counterexample:
  "stderr (projr (run import_fails_verbosely [''C:/py/python.exe'', ''-c'', import_manim_code]))
     = replicate 200 (CHR ''a'') @ ''b''
   \<and> status_var (skip_setup import_fails_verbosely ''C:/py/python.exe''
                   (start_state import_fails_verbosely Map.empty (\<lambda>d. False)))
       = Msg_skip_failed (replicate 200 (CHR ''a''))
   \<and> drop (length (replicate 200 (CHR ''a'') @ ''b'') - 200) (replicate 200 (CHR ''a'') @ ''b'')
       = replicate 199 (CHR ''a'') @ ''b''
   \<and> replicate 200 (CHR ''a'') \<noteq> replicate 199 (CHR ''a'') @ ''b''
   \<and> run import_times_out [''C:/py/python.exe'', ''-c'', import_manim_code]
       = Inl (Exc TimeoutExpired ''timed out after 20 seconds'')
   \<and> callback_after_except import_times_out
   \<and> status_var (skip_setup import_times_out ''C:/py/python.exe''
                   (start_state import_times_out Map.empty (\<lambda>d. False)))
       = Msg_skip_checking"
proof -
  have ne: "replicate 200 (CHR ''a'') \<noteq> replicate 199 (CHR ''a'') @ ''b''"
  proof
    assume "replicate 200 (CHR ''a'') = replicate 199 (CHR ''a'') @ ''b''"
    then have "last (replicate 200 (CHR ''a'')) = last (replicate 199 (CHR ''a'') @ ''b'')"
      by simp
    then show False by simp
  qed
  show ?thesis
    using ne
    by (simp add: skip_eval import_fails_verbosely_def import_times_out_def)
qed

section \<open>The Setup Record\<close>

text \<open>
  C6.  The worker and the skip path are the two writers of the marker.  A bootstrap run
  that completes leaves a JSON object with exactly the keys \<^verbatim>\<open>python_version\<close>,
  \<^verbatim>\<open>venv_dir\<close> and \<^verbatim>\<open>python_exe\<close>, the first being the configured version, and the worker
  changes the marker only in such a run.  A skip-validation that succeeds leaves the
  same three keys, with \<^verbatim>\<open>custom\<close> as the version, and \<^verbatim>\<open>skipped_setup\<close> set to true;
  whenever the skip path changes the marker, this is what it writes.
\<close>

theorem setup_record_keys:
  "(fst (install_body w s) = Next ()
      \<longrightarrow> files (install_worker w s) (SETUP_MARKER w) =
            Some (JsonObject [(''python_version'', JStr PYTHON_VERSION),
                              (''venv_dir'', JStr (VENV_DIR w)),
                              (''python_exe'', JStr (PYTHON_EXE s))]))
   \<and> (files (install_worker w s) (SETUP_MARKER w) \<noteq> files s (SETUP_MARKER w)
      \<longrightarrow> fst (install_body w s) = Next ())
   \<and> (\<not> installing s \<and> chosen \<noteq> [] \<and> import_ok w chosen
       \<and> \<not> isfile s (APP_DIR w) \<and> \<not> isdir s (SETUP_MARKER w)
      \<longrightarrow> files (skip_setup w chosen s) (SETUP_MARKER w) =
            Some (JsonObject [(''python_version'', JStr ''custom''),
                              (''venv_dir'', JStr (dirname (dirname chosen))),
                              (''python_exe'', JStr chosen),
                              (''skipped_setup'', JBool True)]))
   \<and> (files (skip_setup w chosen s) (SETUP_MARKER w) \<noteq> files s (SETUP_MARKER w)
      \<longrightarrow> files (skip_setup w chosen s) (SETUP_MARKER w) =
            Some (JsonObject [(''python_version'', JStr ''custom''),
                              (''venv_dir'', JStr (dirname (dirname chosen))),
                              (''python_exe'', JStr chosen),
                              (''skipped_setup'', JBool True)]))
   \<and> PYTHON_VERSION = ''3.11.9''"
proof -
  have a: "fst (install_body w s) = Next ()
      \<longrightarrow> files (install_worker w s) (SETUP_MARKER w) =
            Some (JsonObject [(''python_version'', JStr PYTHON_VERSION),
                              (''venv_dir'', JStr (VENV_DIR w)),
                              (''python_exe'', JStr (PYTHON_EXE s))])"
    using install_worker_completes [of w s] by (simp add: install_record_def)
  have b: "files (install_worker w s) (SETUP_MARKER w) \<noteq> files s (SETUP_MARKER w)
      \<longrightarrow> fst (install_body w s) = Next ()"
    using install_worker_fails [of w s] by blast
  have c: "\<not> installing s \<and> chosen \<noteq> [] \<and> import_ok w chosen
       \<and> \<not> isfile s (APP_DIR w) \<and> \<not> isdir s (SETUP_MARKER w)
      \<longrightarrow> files (skip_setup w chosen s) (SETUP_MARKER w) = Some (skip_record chosen)"
    using skip_setup_success [of s chosen w] by blast
  have d: "files (skip_setup w chosen s) (SETUP_MARKER w) \<noteq> files s (SETUP_MARKER w)
      \<longrightarrow> files (skip_setup w chosen s) (SETUP_MARKER w) = Some (skip_record chosen)"
    using skip_setup_marker_either [of w chosen s] by blast
  show ?thesis
    using a b c d by (simp add: skip_record_def PYTHON_VERSION_def)
qed

lemma dirname_example: "dirname (dirname ''C:/py/python.exe'') = ''C:/''"
  by (simp add: dirname_def splitdrive_def is_sep_def)

theorem setup_record_keys_witness:
  "files (install_worker python_on_path (python_state python_on_path)) (SETUP_MARKER python_on_path)
     = Some (JsonObject [(''python_version'', JStr ''3.11.9''),
                         (''venv_dir'', JStr (VENV_DIR python_on_path)),
                         (''python_exe'', JStr (PYTHON_EXE_default python_on_path))])
   \<and> files (skip_setup custom_ready ''C:/py/python.exe''
              (start_state custom_ready Map.empty (\<lambda>d. False))) (SETUP_MARKER custom_ready)
     = Some (JsonObject [(''python_version'', JStr ''custom''),
                         (''venv_dir'', JStr ''C:/''),
                         (''python_exe'', JStr ''C:/py/python.exe''),
                         (''skipped_setup'', JBool True)])"
proof -
  let ?w = python_on_path
  let ?s = "python_state python_on_path"
  let ?v = custom_ready
  let ?t = "start_state custom_ready Map.empty (\<lambda>d. False)"
  have a: "fst (install_body ?w ?s) = Next ()"
    by (simp add: worker_eval)
  have b: "PYTHON_EXE ?s = PYTHON_EXE_default ?w"
    by (simp add: python_state_def start_state_def)
  have c: "\<not> installing ?t \<and> ''C:/py/python.exe'' \<noteq> [] \<and> import_ok ?v ''C:/py/python.exe''
           \<and> \<not> isfile ?t (APP_DIR ?v) \<and> \<not> isdir ?t (SETUP_MARKER ?v)"
    by (simp add: start_state_def import_ok_def custom_ready_def isfile_def isdir_def
          strip_def is_space_def)
  show ?thesis
    using setup_record_keys [of ?w ?s "''C:/py/python.exe''" ] 
          setup_record_keys [of ?v ?t "''C:/py/python.exe''" ] a b c
    by (simp add: dirname_example)
qed

text \<open>
  C9.  The \<^verbatim>\<open>python_exe\<close> that a completed bootstrap writes is the global interpreter
  path as it was when the run started.  The readiness check rebinds the global to the
  path an existing marker names when that path is a file, and a skip-validation that
  succeeds rebinds it to the chosen interpreter; a bootstrap that completes afterwards
  writes that path, not the interpreter of the environment it created.
\<close>

theorem install_record_names_global:
  "(fst (install_body w s) = Next ()
      \<longrightarrow> record_field (files (install_worker w s) (SETUP_MARKER w)) ''python_exe''
            = Some (JStr (PYTHON_EXE s)))
   \<and> (isfile s (SETUP_MARKER w) \<and> marker_exe w s = Some p \<and> isfile s p
      \<longrightarrow> PYTHON_EXE (snd (is_setup_complete w s)) = p)
   \<and> (isfile s (SETUP_MARKER w) \<and> marker_exe w s = Some p \<and> isfile s p
       \<and> fst (install_body w (snd (is_setup_complete w s))) = Next ()
      \<longrightarrow> record_field (files (install_worker w (snd (is_setup_complete w s))) (SETUP_MARKER w))
              ''python_exe'' = Some (JStr p))
   \<and> (\<not> installing s \<and> chosen \<noteq> [] \<and> import_ok w chosen
       \<and> \<not> isfile s (APP_DIR w) \<and> \<not> isdir s (SETUP_MARKER w)
      \<longrightarrow> PYTHON_EXE (skip_setup w chosen s) = chosen)
   \<and> (\<not> installing s \<and> chosen \<noteq> [] \<and> import_ok w chosen
       \<and> \<not> isfile s (APP_DIR w) \<and> \<not> isdir s (SETUP_MARKER w)
       \<and> fst (install_body w (skip_setup w chosen s)) = Next ()
      \<longrightarrow> record_field (files (install_worker w (skip_setup w chosen s)) (SETUP_MARKER w))
              ''python_exe'' = Some (JStr chosen))"
proof -
  have a: "\<And>t. fst (install_body w t) = Next ()
      \<Longrightarrow> record_field (files (install_worker w t) (SETUP_MARKER w)) ''python_exe''
            = Some (JStr (PYTHON_EXE t))"
    using install_worker_completes by (simp add: record_field_def install_record_def)
  have b: "isfile s (SETUP_MARKER w) \<and> marker_exe w s = Some p \<and> isfile s p
      \<longrightarrow> PYTHON_EXE (snd (is_setup_complete w s)) = p"
    by (simp add: is_setup_complete_global effective_exe_def)
  have c: "\<not> installing s \<and> chosen \<noteq> [] \<and> import_ok w chosen
       \<and> \<not> isfile s (APP_DIR w) \<and> \<not> isdir s (SETUP_MARKER w)
      \<longrightarrow> PYTHON_EXE (skip_setup w chosen s) = chosen"
    using skip_setup_success [of s chosen w] by blast
  show ?thesis
    using a [of s] a [of "snd (is_setup_complete w s)"] a [of "skip_setup w chosen s"] b c
    by simp
qed

theorem install_record_names_global_witness:
  "\<not> fst (is_setup_complete python_on_path (start_state python_on_path stale_custom_disk (\<lambda>d. False)))
   \<and> fst (install_body python_on_path
            (snd (is_setup_complete python_on_path
                    (start_state python_on_path stale_custom_disk (\<lambda>d. False))))) = Next ()
   \<and> record_field
        (files (install_worker python_on_path
                  (snd (is_setup_complete python_on_path
                          (start_state python_on_path stale_custom_disk (\<lambda>d. False)))))
           (SETUP_MARKER python_on_path)) ''python_exe''
       = Some (JStr ''C:/py/python.exe'')
   \<and> venv_python python_on_path \<noteq> ''C:/py/python.exe''"
proof -
  let ?w = python_on_path
  let ?s = "start_state python_on_path stale_custom_disk (\<lambda>d. False)"
  have m: "isfile ?s (SETUP_MARKER ?w) \<and> marker_exe ?w ?s = Some ''C:/py/python.exe''
           \<and> isfile ?s ''C:/py/python.exe''"
    by (simp add: readiness_eval stale_custom_disk_def python_on_path_def)
  have n: "\<not> fst (is_setup_complete ?w ?s)"
    by (simp add: is_setup_complete_result readiness_eval stale_custom_disk_def
          python_on_path_def)
  have st: "snd (is_setup_complete ?w ?s)
              = ?s\<lparr>PYTHON_EXE := ''C:/py/python.exe'',
                   oplog := [Run [''C:/py/python.exe'', ''-c'', import_manim_code]]\<rparr>"
    by (simp add: is_setup_complete_def load_saved_exe_def subprocess_run_def logged_def
          readiness_eval stale_custom_disk_def python_on_path_def)
  have b: "fst (install_body ?w (snd (is_setup_complete ?w ?s))) = Next ()"
    unfolding st
    by (simp add: worker_eval stale_custom_disk_def custom_marker_def)
  have v: "venv_python ?w \<noteq> ''C:/py/python.exe''"
    by (simp add: venv_python_def VENV_DIR_def APP_DIR_def path_join_def bsl_def is_sep_def
          python_on_path_def bare_world_def)
  show ?thesis
    using install_record_names_global [of ?w ?s "''C:/py/python.exe''"] m n b v by simp
qed

section \<open>The environment directory of an earlier run\<close>

lemma entry_logged [simp]: "entry p (logged x s) = entry p s"
  by (simp add: entry_def logged_def)

lemma entry_update_status [simp]: "entry p (update_status t c s) = entry p s"
  by (simp add: entry_def update_status_def split: option.splits)

lemma entry_fail [simp]: "entry p (fail m k s) = entry p s"
  by (simp add: entry_def fail_def Let_def split: option.splits)

lemma entry_on_install_complete [simp]: "entry p (on_install_complete s) = entry p s"
  by (simp add: entry_def on_install_complete_def)

lemma en_subprocess_run: "keeps (entry p) (subprocess_run w argv)"
  by (simp add: keeps_def subprocess_run_def split: sum.splits)

lemma en_makedirs: "d \<noteq> p \<Longrightarrow> keeps (entry p) (makedirs d)"
  by (simp add: keeps_def makedirs_def) (simp add: entry_def logged_def)

lemma en_write_file: "q \<noteq> p \<Longrightarrow> keeps (entry p) (write_file q c)"
  by (simp add: keeps_def write_file_def) (simp add: entry_def logged_def)

lemma en_os_remove: "q \<noteq> p \<Longrightarrow> keeps (entry p) (os_remove w q)"
  by (simp add: keeps_def os_remove_def) (simp add: entry_def logged_def)

lemma en_rmtree_ignore_errors: "\<not> within d p \<Longrightarrow> keeps (entry p) (rmtree_ignore_errors w d)"
  by (simp add: keeps_def rmtree_ignore_errors_def) (simp add: entry_def logged_def)

lemma en_rmtree: "\<not> within d p \<Longrightarrow> keeps (entry p) (rmtree w d)"
  using en_rmtree_ignore_errors [of d p w] by (simp add: keeps_def rmtree_def)

lemma en_download_file: "dest \<noteq> p \<Longrightarrow> keeps (entry p) (download_file w url dest)"
  by (simp add: keeps_def download_file_def split: fetched.splits option.splits)
     (simp add: entry_def logged_def)

lemma en_extractall: "dest \<noteq> p \<Longrightarrow> keeps (entry p) (extractall w z dest)"
  by (simp add: keeps_def extractall_def split: option.splits)
     (simp add: entry_def logged_def)

lemma en_subprocess_run_leaving:
  "target \<noteq> p \<Longrightarrow> keeps (entry p) (subprocess_run_leaving w argv target)"
  by (simp add: keeps_def subprocess_run_leaving_def subprocess_run_def Let_def
        split: sum.splits option.splits)
     (simp add: entry_def)

lemma en_probe_ffmpeg: "keeps (entry p) (probe_ffmpeg w)"
  by (auto simp add: keeps_def probe_ffmpeg_def seq_def pure_def subprocess_run_def
        split: sum.splits)

lemmas en_intros =
  en_subprocess_run en_makedirs en_write_file en_os_remove en_rmtree_ignore_errors en_rmtree
  en_download_file en_extractall en_subprocess_run_leaving en_probe_ffmpeg

lemma en_download_python_body: "keeps (entry (VENV_DIR w)) (download_python_body w)"
  unfolding download_python_body_def Let_def app_join
  apply (intro keeps_intros en_intros)
  apply (simp_all add: venv_eq sub_join is_sep_def within_def bsl_def)
  done

lemma en_upto_python: "keeps (entry (VENV_DIR w)) (upto_python w)"
  unfolding upto_python_def acquire_python_def
  apply (intro keeps_intros en_intros keeps_find_system_python
           keeps_download_python [OF en_download_python_body])
  apply (simp_all add: venv_eq bsl_def)
  done

lemma venv_entries_apart:
  assumes "within (VENV_DIR w) p"
  shows "p \<noteq> SETUP_MARKER w" and "p \<noteq> APP_DIR w @ bsl @ ''get-pip.py''"
proof -
  have "prefix (APP_DIR w @ bsl @ ''v'') p"
    using assms by (auto simp add: within_def venv_eq prefix_def)
  then obtain r where p: "p = APP_DIR w @ bsl @ ''v'' @ r" by (auto simp add: prefix_def)
  show "p \<noteq> SETUP_MARKER w" using p by (simp add: marker_eq bsl_def)
  show "p \<noteq> APP_DIR w @ bsl @ ''get-pip.py''" using p by (simp add: bsl_def)
qed

lemma en_write_marker: "p \<noteq> SETUP_MARKER w \<Longrightarrow> keeps (entry p) (write_marker w)"
  by (simp add: keeps_def write_marker_def write_file_def) (simp add: entry_def logged_def)

lemma en_after_venv: "within (VENV_DIR w) p \<Longrightarrow> keeps (entry p) (after_venv w)"
  unfolding after_venv_def ensure_pip_def install_manim_def check_ffmpeg_def
    Let_def app_join
  apply (intro keeps_intros en_intros en_write_marker)
  apply (simp_all add: venv_entries_apart venv_entries_apart [THEN not_sym])
  done

lemma install_body_after_venv: "install_body w = seq (upto_venv w) (\<lambda>_. after_venv w)"
  by (simp add: install_body_def upto_venv_def upto_python_def after_venv_def seq_assoc)

lemma install_worker_after_venv:
  assumes u: "upto_venv w s = (f, s2)" and p: "within (VENV_DIR w) p"
  shows "files (install_worker w s) p = files s2 p"
proof -
  obtain g s3 where a: "after_venv w s2 = (g, s3)" by (cases "after_venv w s2")
  have k: "entry p s3 = entry p s2" using keepsD [OF en_after_venv [OF p] a] .
  have b: "install_body w s = (case f of Next x \<Rightarrow> (g, s3) | Return \<Rightarrow> (Return, s2)
                               | Raise e \<Rightarrow> (Raise e, s2))"
    using u a by (simp add: install_body_after_venv seq_def split: flow.splits)
  have fl: "\<And>m t. files (fail m None t) p = files t p" by (simp add: fail_def)
  show ?thesis
    using b k fl
    by (cases f; cases g) (simp_all add: install_worker_def entry_def)
qed

lemma create_venv_removes:
  "isdir s (VENV_DIR w) \<Longrightarrow>
     oplog (snd (create_venv w py s)) = oplog s @ [Rmtree (VENV_DIR w), Run (venv_command w py)]
     \<and> (\<forall>p. within (VENV_DIR w) p \<and> p \<notin> set (undeletable w)
              \<longrightarrow> files (snd (create_venv w py s)) p = None)"
  by (auto simp add: create_venv_def seq_def effect_def update_status_def fail_def
        subprocess_run_def rmtree_ignore_errors_def logged_def return_now_def isdir_def
        split: sum.splits)

lemma create_venv_after_acquisition:
  "fst (upto_python w s) = Next py \<and> isdir s (VENV_DIR w) \<Longrightarrow>
     oplog (snd (upto_venv w s))
       = oplog (snd (upto_python w s)) @ [Rmtree (VENV_DIR w), Run (venv_command w py)]
     \<and> (\<forall>p. within (VENV_DIR w) p \<and> p \<notin> set (undeletable w)
              \<longrightarrow> files (install_worker w s) p = None)"
proof -
  assume h: "fst (upto_python w s) = Next py \<and> isdir s (VENV_DIR w)"
  obtain s1 where u1: "upto_python w s = (Next py, s1)"
    using h by (cases "upto_python w s") auto
  have "entry (VENV_DIR w) s1 = entry (VENV_DIR w) s" using keepsD [OF en_upto_python u1] .
  then have d1: "isdir s1 (VENV_DIR w)" using h by (simp add: entry_def isdir_def)
  obtain f s2 where cv: "create_venv w py s1 = (f, s2)" by (cases "create_venv w py s1")
  have u2: "upto_venv w s = (f, s2)" using u1 cv by (simp add: upto_venv_def seq_def)
  have c: "oplog s2 = oplog s1 @ [Rmtree (VENV_DIR w), Run (venv_command w py)]"
    "\<forall>p. within (VENV_DIR w) p \<and> p \<notin> set (undeletable w) \<longrightarrow> files s2 p = None"
    using create_venv_removes [OF d1, of py] cv by simp_all
  show ?thesis
    using c u1 u2 install_worker_after_venv [OF u2] by simp
qed

lemma within_venv_shape:
  assumes "within (VENV_DIR w) p"
  obtains r where "p = APP_DIR w @ bsl @ ''v'' @ r"
proof -
  have "prefix (APP_DIR w @ bsl @ ''v'') p"
    using assms by (auto simp add: within_def venv_eq prefix_def)
  then show ?thesis using that by (auto simp add: prefix_def)
qed

lemma en_download_python_body_within:
  assumes "within (VENV_DIR w) p"
  shows "keeps (entry p) (download_python_body w)"
proof -
  obtain r where p: "p = APP_DIR w @ bsl @ ''v'' @ r"
    using within_venv_shape [OF assms] by blast
  show ?thesis
    unfolding p download_python_body_def Let_def app_join
    apply (intro keeps_intros en_intros)
    apply (simp_all add: sub_join is_sep_def within_def bsl_def)
    done
qed

lemma en_upto_python_within:
  assumes "within (VENV_DIR w) p"
  shows "keeps (entry p) (upto_python w)"
proof -
  obtain r where p: "p = APP_DIR w @ bsl @ ''v'' @ r"
    using within_venv_shape [OF assms] by blast
  have d: "keeps (entry p) (download_python w)"
    by (rule keeps_download_python [OF en_download_python_body_within [OF assms]])
  show ?thesis
    unfolding upto_python_def acquire_python_def
    apply (intro keeps_intros en_intros keeps_find_system_python d)
    apply (simp_all add: p bsl_def)
    done
qed

lemma install_worker_halted_at_acquisition:
  assumes r: "fst (upto_python w s) = Return" and p: "within (VENV_DIR w) p"
  shows "files (install_worker w s) p = files s p \<and> dirs (install_worker w s) p = dirs s p"
proof -
  obtain s1 where u: "upto_python w s = (Return, s1)"
    using r by (cases "upto_python w s") auto
  have e: "entry p s1 = entry p s" using keepsD [OF en_upto_python_within [OF p] u] .
  have "install_body w s = (Return, s1)"
    using u by (simp add: install_body_after_venv upto_venv_def seq_def)
  then have "install_worker w s = s1" by (simp add: install_worker_def)
  then show ?thesis using e by (simp add: entry_def)
qed

text \<open>
  C4, as amended.  In every bootstrap run that gets past the acquisition of an
  interpreter while an environment directory exists, the removal of that directory
  (errors ignored) is the operation right before the environment-creation command, and
  every file of the old environment that the operating system lets the program delete
  is gone when the run ends.  A run that halts at the acquisition of an interpreter
  leaves every file and directory of the old environment as it was.
\<close>

theorem old_environment_removed_before_creation:
  "(fst (upto_python w s) = Next py \<and> isdir s (VENV_DIR w) \<longrightarrow>
     oplog (snd (upto_venv w s))
       = oplog (snd (upto_python w s)) @ [Rmtree (VENV_DIR w), Run (venv_command w py)]
     \<and> (\<forall>p. within (VENV_DIR w) p \<and> p \<notin> set (undeletable w)
              \<longrightarrow> files (install_worker w s) p = None))
   \<and> (fst (upto_python w s) = Return \<longrightarrow>
        (\<forall>p. within (VENV_DIR w) p
              \<longrightarrow> files (install_worker w s) p = files s p
                  \<and> dirs (install_worker w s) p = dirs s p))"
  using create_venv_after_acquisition [of w s py] install_worker_halted_at_acquisition [of w s]
  by blast

lemmas worker_eval_download =
  download_python_def download_python_body_def download_file_def extractall_def
  os_remove_def rmtree_def subprocess_run_leaving_def except_OSError_pass_def
  PYTHON_EMBED_URL_def PYTHON_VERSION_def installer_url_def

theorem old_environment_removed_before_creation_witness:
  "fst (upto_python python_on_path (old_env_state python_on_path)) = Next ''C:/a/python.exe''
   \<and> isdir (old_env_state python_on_path) (VENV_DIR python_on_path)
   \<and> within (VENV_DIR python_on_path) old_file
   \<and> files (old_env_state python_on_path) old_file = Some (Opaque ''stale'')
   \<and> files (install_worker python_on_path (old_env_state python_on_path)) old_file = None
   \<and> oplog (snd (upto_venv python_on_path (old_env_state python_on_path)))
       = oplog (snd (upto_python python_on_path (old_env_state python_on_path)))
         @ [Rmtree (VENV_DIR python_on_path),
            Run (venv_command python_on_path ''C:/a/python.exe'')]"
proof -
  let ?w = python_on_path
  let ?s = "old_env_state python_on_path"
  have a: "fst (upto_python ?w ?s) = Next ''C:/a/python.exe''"
    by (simp add: worker_eval old_env_state_def old_env_disk_def old_file_def)
  have b: "isdir ?s (VENV_DIR ?w)"
    by (simp add: isdir_def old_env_state_def start_state_def VENV_DIR_def APP_DIR_def
          python_on_path_def bare_world_def)
  have c: "within (VENV_DIR ?w) old_file"
    by (simp add: within_def old_file_def VENV_DIR_def APP_DIR_def python_on_path_def
          bare_world_def)
  have d: "files ?s old_file = Some (Opaque ''stale'')"
    by (simp add: old_env_state_def start_state_def old_env_disk_def)
  have e: "old_file \<notin> set (undeletable ?w)"
    by (simp add: python_on_path_def bare_world_def)
  show ?thesis
    using old_environment_removed_before_creation [of ?w ?s "''C:/a/python.exe''"] a b c d e
    by simp
qed

text \<open>
  C4 as stated fails.  A run that cannot acquire an interpreter halts before the
  removal and leaves the old directory and its file in place; and in a run that
  completes, a file the operating system refuses to delete survives the removal,
  whose errors are ignored.
\<close>

theorem old_environment_survives_counterexample:
  "isdir (old_env_state bare_world) (VENV_DIR bare_world)
   \<and> within (VENV_DIR bare_world) old_file
   \<and> fst (install_body bare_world (old_env_state bare_world)) = Return
   \<and> isdir (install_worker bare_world (old_env_state bare_world)) (VENV_DIR bare_world)
   \<and> files (install_worker bare_world (old_env_state bare_world)) old_file
       = Some (Opaque ''stale'')
   \<and> isdir (old_env_state old_file_locked) (VENV_DIR old_file_locked)
   \<and> fst (install_body old_file_locked (old_env_state old_file_locked)) = Next ()
   \<and> files (install_worker old_file_locked (old_env_state old_file_locked)) old_file
       = Some (Opaque ''stale'')"
  by (simp add: worker_eval worker_eval_download old_env_state_def old_env_disk_def
        old_file_def old_file_locked_def within_def)

section \<open>The headless conversion: properties\<close>

lemma script_not_output: "script_path w \<noteq> output_path w svg"
proof
  assume e: "script_path w = output_path w svg"
  have "last (script_path w) = CHR ''y''" by (simp add: script_path_def path_join_last)
  moreover have "last (output_path w svg) = CHR ''4''"
    by (simp add: output_path_def path_join_last)
  ultimately show False using e by simp
qed

lemma is_setup_complete_True:
  assumes "fst (is_setup_complete w s)"
  obtains s1 where "is_setup_complete w s = (True, s1)" "files s1 = files s" "dirs s1 = dirs s"
    "printed s1 = printed s" "PYTHON_EXE s1 = effective_exe w s"
proof -
  obtain b s1 where e: "is_setup_complete w s = (b, s1)" by (cases "is_setup_complete w s")
  have m: "isfile s (SETUP_MARKER w)" using assms by (simp add: is_setup_complete_result)
  show ?thesis
    using that [of s1] e assms is_setup_complete_files [of w s]
      is_setup_complete_global [of w s] m
    by simp
qed

lemmas cli_unfold =
  process_svg_cli_def seq_def except_FileNotFoundError_pass_def os_remove_def write_file_def
  shell_run_def print_line_def logged_def isfile_def isdir_def Let_def

lemma process_svg_cli_message:
  assumes f: "isfile s svg" and r: "fst (is_setup_complete w s)"
    and n: "fst (process_svg_cli w svg s) = Next ()"
  shows "printed (snd (process_svg_cli w svg s)) =
           printed s @ [if isfile (snd (process_svg_cli w svg s)) (output_path w svg)
                        then Video_created (output_path w svg) else Video_failed]"
    and "isfile (snd (process_svg_cli w svg s)) (output_path w svg) =
           (rendered w (render_command_of w s svg) \<noteq> None \<or> isfile s (output_path w svg))"
proof -
  obtain s1 where s1: "is_setup_complete w s = (True, s1)" "files s1 = files s"
    "dirs s1 = dirs s" "printed s1 = printed s" "PYTHON_EXE s1 = effective_exe w s"
    using is_setup_complete_True [OF r] by blast
  show "printed (snd (process_svg_cli w svg s)) =
           printed s @ [if isfile (snd (process_svg_cli w svg s)) (output_path w svg)
                        then Video_created (output_path w svg) else Video_failed]"
    using f n s1 script_not_output [of w svg]
    by (auto simp add: cli_unfold split: sum.splits option.splits if_splits)
  show "isfile (snd (process_svg_cli w svg s)) (output_path w svg) =
           (rendered w (render_command_of w s svg) \<noteq> None \<or> isfile s (output_path w svg))"
    using f n s1 script_not_output [of w svg]
    by (auto simp add: cli_unfold render_command_of_def
          split: sum.splits option.splits if_splits)
qed

lemma process_svg_cli_returns:
  assumes f: "isfile s svg" and r: "fst (is_setup_complete w s)"
    and d: "\<not> isdir s (script_path w)" and u: "script_path w \<notin> set (undeletable w)"
    and c: "run_shell w (render_command_of w s svg) = Inr x"
    and e: "stdout_encodes w (Video_created (output_path w svg))" "stdout_encodes w Video_failed"
  shows "fst (process_svg_cli w svg s) = Next ()"
proof -
  obtain s1 where s1: "is_setup_complete w s = (True, s1)" "files s1 = files s"
    "dirs s1 = dirs s" "printed s1 = printed s" "PYTHON_EXE s1 = effective_exe w s"
    using is_setup_complete_True [OF r] by blast
  show ?thesis
    using f s1 d u c e script_not_output [of w svg]
    by (auto simp add: cli_unfold render_command_of_def split: sum.splits option.splits)
qed

text \<open>
  C8, as amended.  For a headless conversion of an existing SVG file on a machine that
  is set up: when the conversion returns, it has printed one line, the success line if
  the file \<^verbatim>\<open><stem>_animation.mp4\<close> exists in the output directory and the failure line
  otherwise; that file exists exactly when the renderer left it or it was there before,
  whatever the renderer's exit status.  The conversion returns, and no exception
  escapes, when the temporary script can be replaced (its path is no directory and the
  operating system lets the program delete it), the shell call itself returns, and
  standard output can encode the two result lines.
\<close>

theorem process_svg_cli_success_is_output_file:
  "isfile s svg \<and> fst (is_setup_complete w s) \<Longrightarrow>
     (fst (process_svg_cli w svg s) = Next ()
        \<longrightarrow> printed (snd (process_svg_cli w svg s)) =
              printed s @ [if isfile (snd (process_svg_cli w svg s)) (output_path w svg)
                           then Video_created (output_path w svg) else Video_failed]
            \<and> isfile (snd (process_svg_cli w svg s)) (output_path w svg) =
                (rendered w (render_command_of w s svg) \<noteq> None
                 \<or> isfile s (output_path w svg)))
     \<and> (\<not> isdir s (script_path w) \<and> script_path w \<notin> set (undeletable w)
         \<and> run_shell w (render_command_of w s svg) = Inr x
         \<and> stdout_encodes w (Video_created (output_path w svg))
         \<and> stdout_encodes w Video_failed
        \<longrightarrow> fst (process_svg_cli w svg s) = Next ())
     \<and> output_path w svg
         = path_join (home w @ ''/Desktop'') (path_stem svg @ ''_animation.mp4'')"
  using process_svg_cli_message [of s svg w] process_svg_cli_returns [of s svg w x]
  by (simp add: output_path_def)

lemma stem_example: "path_stem ''C:/art/logo.svg'' = ''logo''"
  by (simp add: path_stem_def basename_def splitdrive_def is_sep_def)

theorem process_svg_cli_success_is_output_file_witness:
  "isfile (start_state renders_with_status_1 svg_disk (\<lambda>d. False)) ''C:/art/logo.svg''
   \<and> fst (is_setup_complete renders_with_status_1
            (start_state renders_with_status_1 svg_disk (\<lambda>d. False)))
   \<and> run_shell renders_with_status_1
        (render_command_of renders_with_status_1
           (start_state renders_with_status_1 svg_disk (\<lambda>d. False)) ''C:/art/logo.svg'')
       = Inr \<lparr>returncode = 1, stdout = [], stderr = []\<rparr>
   \<and> fst (process_svg_cli renders_with_status_1 ''C:/art/logo.svg''
            (start_state renders_with_status_1 svg_disk (\<lambda>d. False))) = Next ()
   \<and> printed (snd (process_svg_cli renders_with_status_1 ''C:/art/logo.svg''
                     (start_state renders_with_status_1 svg_disk (\<lambda>d. False))))
       = [Video_created (output_path renders_with_status_1 ''C:/art/logo.svg'')]"
proof -
  let ?w = renders_with_status_1
  let ?s = "start_state renders_with_status_1 svg_disk (\<lambda>d. False)"
  let ?x = "\<lparr>returncode = 1, stdout = [], stderr = []\<rparr>"
  have a: "isfile ?s ''C:/art/logo.svg''"
    by (simp add: isfile_def start_state_def svg_disk_def)
  have b: "fst (is_setup_complete ?w ?s)"
    by (simp add: is_setup_complete_result readiness_eval svg_disk_def
          renders_with_status_1_def custom_ready_def)
  have c: "run_shell ?w (render_command_of ?w ?s ''C:/art/logo.svg'') = Inr ?x"
    by (simp add: renders_with_status_1_def)
  have d: "\<not> isdir ?s (script_path ?w)" by (simp add: isdir_def start_state_def)
  have e: "script_path ?w \<notin> set (undeletable ?w)"
    by (simp add: renders_with_status_1_def custom_ready_def bare_world_def)
  have g: "rendered ?w (render_command_of ?w ?s ''C:/art/logo.svg'') \<noteq> None"
    by (simp add: renders_with_status_1_def)
  have p: "printed ?s = []" by (simp add: start_state_def)
  have q: "stdout_encodes ?w (Video_created (output_path ?w ''C:/art/logo.svg''))"
    "stdout_encodes ?w Video_failed"
    by (simp_all add: renders_with_status_1_def custom_ready_def bare_world_def)
  note t = process_svg_cli_success_is_output_file [of ?s "''C:/art/logo.svg''" ?w ?x]
  have n: "fst (process_svg_cli ?w ''C:/art/logo.svg'' ?s) = Next ()"
    using t a b c d e q by blast
  have o: "isfile (snd (process_svg_cli ?w ''C:/art/logo.svg'' ?s))
             (output_path ?w ''C:/art/logo.svg'')"
    using t a b n g by blast
  have "printed (snd (process_svg_cli ?w ''C:/art/logo.svg'' ?s)) =
          printed ?s @ [if isfile (snd (process_svg_cli ?w ''C:/art/logo.svg'' ?s))
                             (output_path ?w ''C:/art/logo.svg'')
                        then Video_created (output_path ?w ''C:/art/logo.svg'')
                        else Video_failed]"
    using t a b n by blast
  then show ?thesis
    using a b c n o p by simp
qed

lemma process_svg_cli_locked_script_run:
  "isfile (start_state script_locked stale_script_disk (\<lambda>d. False)) ''C:/art/logo.svg''
   \<and> fst (is_setup_complete script_locked (start_state script_locked stale_script_disk (\<lambda>d. False)))
   \<and> fst (process_svg_cli script_locked ''C:/art/logo.svg''
            (start_state script_locked stale_script_disk (\<lambda>d. False)))
       = Raise (Exc PermissionError (script_path script_locked))
   \<and> printed (snd (process_svg_cli script_locked ''C:/art/logo.svg''
                     (start_state script_locked stale_script_disk (\<lambda>d. False)))) = []"
proof -
  let ?w = script_locked
  let ?s = "start_state script_locked stale_script_disk (\<lambda>d. False)"
  have a: "isfile ?s ''C:/art/logo.svg''"
    by (simp add: isfile_def start_state_def stale_script_disk_def script_path_def
          bare_world_def path_join_def bsl_def is_sep_def)
  have b: "fst (is_setup_complete ?w ?s)"
    by (simp add: is_setup_complete_result readiness_eval stale_script_disk_def
          script_locked_def custom_ready_def script_path_def)
  obtain s1 where s1: "is_setup_complete ?w ?s = (True, s1)" "files s1 = files ?s"
    "dirs s1 = dirs ?s" "printed s1 = printed ?s" "PYTHON_EXE s1 = effective_exe ?w ?s"
    using is_setup_complete_True [OF b] by blast
  have sp: "script_path ?w = script_path bare_world"
    by (simp add: script_path_def script_locked_def custom_ready_def)
  have f: "files ?s (script_path bare_world) \<noteq> None"
    by (simp add: start_state_def stale_script_disk_def)
  have u: "script_path bare_world \<in> set (undeletable ?w)"
    by (simp add: script_locked_def)
  have p: "printed ?s = []" by (simp add: start_state_def)
  show ?thesis
    using a b s1 sp f u p
    by (simp add: cli_unfold)
qed

lemma process_svg_cli_unencodable_run:
  "isfile (start_state renders_to_ansi_stdout svg_disk (\<lambda>d. False)) ''C:/art/logo.svg''
   \<and> fst (is_setup_complete renders_to_ansi_stdout
            (start_state renders_to_ansi_stdout svg_disk (\<lambda>d. False)))
   \<and> fst (process_svg_cli renders_to_ansi_stdout ''C:/art/logo.svg''
            (start_state renders_to_ansi_stdout svg_disk (\<lambda>d. False)))
       = Raise (Exc UnicodeEncodeError ''codec cannot encode character'')
   \<and> isfile (snd (process_svg_cli renders_to_ansi_stdout ''C:/art/logo.svg''
                    (start_state renders_to_ansi_stdout svg_disk (\<lambda>d. False))))
        (output_path renders_to_ansi_stdout ''C:/art/logo.svg'')
   \<and> printed (snd (process_svg_cli renders_to_ansi_stdout ''C:/art/logo.svg''
                     (start_state renders_to_ansi_stdout svg_disk (\<lambda>d. False)))) = []"
proof -
  let ?w = renders_to_ansi_stdout
  let ?s = "start_state renders_to_ansi_stdout svg_disk (\<lambda>d. False)"
  have a: "isfile ?s ''C:/art/logo.svg''"
    by (simp add: isfile_def start_state_def svg_disk_def)
  have b: "fst (is_setup_complete ?w ?s)"
    by (simp add: is_setup_complete_result readiness_eval svg_disk_def
          renders_to_ansi_stdout_def renders_with_status_1_def custom_ready_def)
  obtain s1 where s1: "is_setup_complete ?w ?s = (True, s1)" "files s1 = files ?s"
    "dirs s1 = dirs ?s" "printed s1 = printed ?s" "PYTHON_EXE s1 = effective_exe ?w ?s"
    using is_setup_complete_True [OF b] by blast
  have f: "files ?s (script_path ?w) = None"
    by (simp add: start_state_def svg_disk_def script_path_def renders_to_ansi_stdout_def
          renders_with_status_1_def custom_ready_def bare_world_def SETUP_MARKER_def
          APP_DIR_def path_join_def bsl_def is_sep_def)
  have d: "dirs ?s = (\<lambda>d. False)" "printed ?s = []" by (simp_all add: start_state_def)
  have r: "run_shell ?w = (\<lambda>cmd. Inr \<lparr>returncode = 1, stdout = [], stderr = []\<rparr>)"
    "rendered ?w = (\<lambda>cmd. Some (Opaque ''video''))" "stdout_encodes ?w = (\<lambda>l. False)"
    "undeletable ?w = []"
    by (simp_all add: renders_to_ansi_stdout_def renders_with_status_1_def custom_ready_def
          bare_world_def)
  show ?thesis
    using a b s1 f d r script_not_output [of ?w "''C:/art/logo.svg''"]
    by (simp add: cli_unfold)
qed

text \<open>
  C8 as stated fails.  The removal of the temporary script is guarded against
  \<open>FileNotFoundError\<close> only, so a script that cannot be deleted makes the conversion
  end with a \<open>PermissionError\<close> before anything is printed.  And when standard output
  cannot encode the result line, the video is there but no message is printed and a
  \<open>UnicodeEncodeError\<close> leaves the conversion.
\<close>

theorem process_svg_cli_exception_counterexample:
  "isfile (start_state script_locked stale_script_disk (\<lambda>d. False)) ''C:/art/logo.svg''
   \<and> fst (is_setup_complete script_locked (start_state script_locked stale_script_disk (\<lambda>d. False)))
   \<and> fst (process_svg_cli script_locked ''C:/art/logo.svg''
            (start_state script_locked stale_script_disk (\<lambda>d. False)))
       = Raise (Exc PermissionError (script_path script_locked))
   \<and> printed (snd (process_svg_cli script_locked ''C:/art/logo.svg''
                     (start_state script_locked stale_script_disk (\<lambda>d. False)))) = []
   \<and> isfile (start_state renders_to_ansi_stdout svg_disk (\<lambda>d. False)) ''C:/art/logo.svg''
   \<and> fst (is_setup_complete renders_to_ansi_stdout
            (start_state renders_to_ansi_stdout svg_disk (\<lambda>d. False)))
   \<and> fst (process_svg_cli renders_to_ansi_stdout ''C:/art/logo.svg''
            (start_state renders_to_ansi_stdout svg_disk (\<lambda>d. False)))
       = Raise (Exc UnicodeEncodeError ''codec cannot encode character'')
   \<and> isfile (snd (process_svg_cli renders_to_ansi_stdout ''C:/art/logo.svg''
                    (start_state renders_to_ansi_stdout svg_disk (\<lambda>d. False))))
        (output_path renders_to_ansi_stdout ''C:/art/logo.svg'')
   \<and> printed (snd (process_svg_cli renders_to_ansi_stdout ''C:/art/logo.svg''
                     (start_state renders_to_ansi_stdout svg_disk (\<lambda>d. False)))) = []"
  using process_svg_cli_locked_script_run process_svg_cli_unencodable_run by simp

end
